theory Spec2Isabelle
  imports Complex_Main
begin

section \<open>Election swing projection engine\<close>

text \<open>
  A shallow embedding of the swing utilities of \<^verbatim>\<open>src/lib/election/swing.ts\<close>
  and of the swing transform, the aggregator and the targeted outcome solver of
  \<^verbatim>\<open>src/pages/RustBeltSwing3DPage.tsx\<close>.

  A JavaScript \<^verbatim>\<open>number\<close> is modelled as a \<^typ>\<open>real\<close>: the arithmetic is the
  exact one, so every equation below is the ideal value that the floating-point
  computation approximates, and the values NaN and the infinities are outside the
  model, except for the parsed solver target, which keeps them. For the bound on the
  sum of the two shares, where rounding decides, the share computation is given a
  second time with every operation rounded to a double.
\<close>

subsection \<open>Shared utilities (swing.ts)\<close>

text \<open>\<^verbatim>\<open>clamp(v, lo, hi) = Math.max(lo, Math.min(hi, v))\<close>\<close>

definition clamp :: "real \<Rightarrow> real \<Rightarrow> real \<Rightarrow> real" where
  "clamp v lo hi = max lo (min hi v)"

text \<open>
  The idiom \<^verbatim>\<open>x || dflt\<close> on a number: the default replaces a falsy \<^verbatim>\<open>x\<close>,
  which for a real number is zero.
\<close>

definition js_or :: "real \<Rightarrow> real \<Rightarrow> real" where
  "js_or x dflt = (if x = 0 then dflt else x)"

definition iowaMarginBinIndex :: "real \<Rightarrow> nat" where
  "iowaMarginBinIndex absMargin =
     (let m = \<bar>absMargin\<bar>
      in if m < 1 then 0 else if m < 5 then 1 else if m < 10 then 2
         else if m < 20 then 3 else if m < 30 then 4 else 5)"

definition extrusionFromMarginIOWA :: "real \<Rightarrow> real" where
  "extrusionFromMarginIOWA marginPct =
     (let mag = min 40 \<bar>marginPct\<bar> in 1000 + (mag / 40) * 18000)"

record share_pair =
  dShare :: real
  gShare :: real

definition computeSharesAfterSwing :: "real \<Rightarrow> real \<Rightarrow> real \<Rightarrow> real \<Rightarrow> share_pair" where
  "computeSharesAfterSwing dShare0 gShare0 demSwingPP gopSwingPP =
     (let dS = dShare0 + (demSwingPP / 100);
          gS = gShare0 + (gopSwingPP / 100);
          dS = clamp dS 0 1;
          gS = clamp gS 0 1;
          sumDG = dS + gS
      in if sumDG > 1
         then (let scale = 1 / sumDG in \<lparr>dShare = dS * scale, gShare = gS * scale\<rparr>)
         else \<lparr>dShare = dS, gShare = gS\<rparr>)"

record margin_pair =
  pmBaseMargin :: real
  pmNewMargin :: real

text \<open>
  \<^verbatim>\<open>computeProjectedMargin\<close>; the two local swings default to 0 in the source
  and are explicit arguments here.
\<close>

definition computeProjectedMargin ::
  "real \<Rightarrow> real \<Rightarrow> real \<Rightarrow> real \<Rightarrow> real \<Rightarrow> real \<Rightarrow> real \<Rightarrow> margin_pair" where
  "computeProjectedMargin demVotes gopVotes totalVotes demSwingPP gopSwingPP localDemPP localGopPP =
     (let T = max 1 (js_or totalVotes 0);
          d0 = (js_or demVotes 0) / T;
          g0 = (js_or gopVotes 0) / T;
          baseMargin = (g0 - d0) * 100;
          sh = computeSharesAfterSwing d0 g0 (demSwingPP + localDemPP) (gopSwingPP + localGopPP);
          newMargin = (gShare sh - dShare sh) * 100
      in \<lparr>pmBaseMargin = baseMargin, pmNewMargin = newMargin\<rparr>)"

subsection \<open>Page state (RustBeltSwing3DPage.tsx)\<close>

record CountyBaseline =
  fips :: string
  stateFips :: string
  countyName :: string
  totalVotes2024 :: real
  votesGop2024 :: real
  votesDem2024 :: real

record local_swing =
  dem :: real
  gop :: real

record shares =
  shG :: real
  shD :: real

datatype solver_mode = Uniform | Elastic

text \<open>
  The value of \<^verbatim>\<open>parseFloat\<close> on the target field: a finite number, or one of
  the values that \<^verbatim>\<open>isFinite\<close> rejects.
\<close>

datatype js_number = Fin real | NaN | PosInfinity | NegInfinity

fun isFinite :: "js_number \<Rightarrow> bool" where
  "isFinite (Fin _) = True"
| "isFinite _ = False"

text \<open>
  The status line set by \<^verbatim>\<open>setSolverStatus\<close>, one constructor for each message of
  the source; the numbers that a message formats are kept as values.
\<close>

datatype solver_status =
    NoStatus
  | EnterNumericTarget
  | AlreadyWithin real
  | NoBaselineData
  | ZeroTotalVotes
  | Applied solver_mode real real

text \<open>
  The part of the component state that the swing transform, the aggregator and the
  solver read or write. A JavaScript \<^verbatim>\<open>Map\<close> that the code iterates is an
  association list in insertion order; one that it only looks up is a map.
\<close>

record page_state =
  baseMap :: "(string \<times> CountyBaseline) list"
  baselineByYear :: "(nat \<times> (string \<rightharpoonup> CountyBaseline)) list"
  demSwing :: real
  gopSwing :: real
  solverMode :: solver_mode
  solverActive :: bool
  solverLocalSwings :: "string \<rightharpoonup> local_swing"
  solverStatus :: solver_status
  tickKey :: nat

text \<open>\<^verbatim>\<open>Array.from(baseMap.current.values())\<close>\<close>

definition entries :: "page_state \<Rightarrow> CountyBaseline list" where
  "entries st = map snd (baseMap st)"

subsection \<open>Swing transform\<close>

record swing_result =
  swing :: real
  newMargin :: real
  baseMargin :: real
  baseShares :: "shares option"
  newShares :: "shares option"
  localApplied :: "local_swing option"

text \<open>
  The local swing that \<^verbatim>\<open>projectedSwing\<close> reads for a unit: only when the solver is
  active and \<^verbatim>\<open>fips\<close> is given and non-empty (an empty string is falsy).
\<close>

definition localFor :: "page_state \<Rightarrow> string option \<Rightarrow> local_swing" where
  "localFor st fipsArg =
     (case fipsArg of
        None \<Rightarrow> \<lparr>dem = 0, gop = 0\<rparr>
      | Some f \<Rightarrow>
          if solverActive st \<and> f \<noteq> []
          then (case solverLocalSwings st f of
                  None \<Rightarrow> \<lparr>dem = 0, gop = 0\<rparr>
                | Some loc \<Rightarrow> \<lparr>dem = dem loc, gop = gop loc\<rparr>)
          else \<lparr>dem = 0, gop = 0\<rparr>)"

definition projectedSwing :: "page_state \<Rightarrow> CountyBaseline option \<Rightarrow> string option \<Rightarrow> swing_result" where
  "projectedSwing st base fipsArg =
     (case base of
        None \<Rightarrow> \<lparr>swing = 0, newMargin = 0, baseMargin = 0,
                  baseShares = None, newShares = None, localApplied = None\<rparr>
      | Some b \<Rightarrow>
          if totalVotes2024 b \<le> 0
          then \<lparr>swing = 0, newMargin = 0, baseMargin = 0,
                 baseShares = None, newShares = None, localApplied = None\<rparr>
          else
            (let gShare0 = votesGop2024 b / max 1 (totalVotes2024 b);
                 dShare0 = votesDem2024 b / max 1 (totalVotes2024 b);
                 baseM = (gShare0 - dShare0) * 100;
                 loc = localFor st fipsArg;
                 dS = dShare0 + (demSwing st / 100) + (dem loc / 100);
                 gS = gShare0 + (gopSwing st / 100) + (gop loc / 100);
                 dS = clamp dS 0 1;
                 gS = clamp gS 0 1;
                 sumDG = dS + gS;
                 (dS, gS) = (if sumDG > 1
                             then (let scale = 1 / sumDG in (dS * scale, gS * scale))
                             else (dS, gS));
                 newM = (gS - dS) * 100
             in \<lparr>swing = newM - baseM, newMargin = newM, baseMargin = baseM,
                  baseShares = Some \<lparr>shG = gShare0, shD = dShare0\<rparr>,
                  newShares = Some \<lparr>shG = gS, shD = dS\<rparr>,
                  localApplied = Some loc\<rparr>))"

text \<open>What \<^verbatim>\<open>projectedSwing\<close> returns for a unit without data.\<close>

definition zeroResult :: swing_result where
  "zeroResult = \<lparr>swing = 0, newMargin = 0, baseMargin = 0,
                  baseShares = None, newShares = None, localApplied = None\<rparr>"

definition anySwing :: "page_state \<Rightarrow> bool" where
  "anySwing st = (demSwing st \<noteq> 0 \<or> gopSwing st \<noteq> 0 \<or> solverActive st)"

subsection \<open>Aggregator\<close>

text \<open>The weight of a unit: \<^verbatim>\<open>Math.max(0, Number(b.totalVotes2024||0))\<close>\<close>

definition turnout :: "CountyBaseline \<Rightarrow> real" where
  "turnout b = max 0 (js_or (totalVotes2024 b) 0)"

text \<open>
  The accumulation loop shared by the aggregators: \<^verbatim>\<open>T += t; sum += (m/100) * t\<close>,
  on the pair \<open>(T, sum)\<close>, for the margin \<open>mOf b\<close> of each unit.
\<close>

definition accumulate :: "(CountyBaseline \<Rightarrow> real) \<Rightarrow> CountyBaseline list \<Rightarrow> real \<times> real" where
  "accumulate mOf bs =
     fold (\<lambda>b (T, sum). (T + turnout b, sum + (mOf b / 100) * turnout b)) bs (0, 0)"

text \<open>
  The margin that \<^verbatim>\<open>computeStateProjectedMargin\<close> takes for a unit:
  \<^verbatim>\<open>anySwing ? newMargin : baseMargin\<close> of \<^verbatim>\<open>projectedSwing(b, b.fips)\<close>.
\<close>

definition unitMargin :: "page_state \<Rightarrow> CountyBaseline \<Rightarrow> real" where
  "unitMargin st b =
     (let r = projectedSwing st (Some b) (Some (fips b))
      in if anySwing st then newMargin r else baseMargin r)"

definition computeStateProjectedMargin :: "page_state \<Rightarrow> string \<Rightarrow> real" where
  "computeStateProjectedMargin st stateFipsArg =
     (let es = filter (\<lambda>b. stateFips b = stateFipsArg) (entries st)
      in if es = [] then 0
         else
           (let (T, sum) = accumulate (unitMargin st) es
            in if T > 0 then (sum / T) * 100 else 0))"

definition computeCurrentStatewideMarginNoLocal :: "page_state \<Rightarrow> real" where
  "computeCurrentStatewideMarginNoLocal st =
     (let es = entries st
      in if es = [] then 0
         else
           (let (T, sum) =
                  accumulate (\<lambda>b. let r = projectedSwing st (Some b) None
                                   in if demSwing st \<noteq> 0 \<or> gopSwing st \<noteq> 0
                                      then newMargin r else baseMargin r) es
            in if T > 0 then (sum / T) * 100 else 0))"

subsection \<open>Elasticity\<close>

text \<open>
  \<^verbatim>\<open>Array.from(yearMaps.keys()).sort()\<close>: the default sort of JavaScript compares
  the elements as strings, here the decimal digits of each year, and is stable.
\<close>

fun decimal :: "nat \<Rightarrow> nat list" where
  "decimal n = (if n < 10 then [n] else decimal (n div 10) @ [n mod 10])"

fun str_less :: "nat list \<Rightarrow> nat list \<Rightarrow> bool" where
  "str_less [] [] = False"
| "str_less [] (y # ys) = True"
| "str_less (x # xs) [] = False"
| "str_less (x # xs) (y # ys) = (x < y \<or> (x = y \<and> str_less xs ys))"

fun js_insert :: "nat \<Rightarrow> nat list \<Rightarrow> nat list" where
  "js_insert x [] = [x]"
| "js_insert x (y # ys) =
     (if str_less (decimal y) (decimal x) then y # js_insert x ys else x # y # ys)"

definition js_sort :: "nat list \<Rightarrow> nat list" where
  "js_sort xs = foldr js_insert xs []"

text \<open>
  The margins of one unit over the years, in the order of \<open>years\<close>: a year counts
  when it has a record of the unit with positive turnout.
\<close>

fun unitMargins :: "(nat \<rightharpoonup> (string \<rightharpoonup> CountyBaseline)) \<Rightarrow> nat list \<Rightarrow> string \<Rightarrow> real list" where
  "unitMargins yearMaps [] f = []"
| "unitMargins yearMaps (y # ys) f =
     (case (case yearMaps y of None \<Rightarrow> None | Some ym \<Rightarrow> ym f) of
        None \<Rightarrow> unitMargins yearMaps ys f
      | Some m \<Rightarrow>
          if totalVotes2024 m > 0
          then (let g0 = votesGop2024 m / max 1 (totalVotes2024 m);
                    d0 = votesDem2024 m / max 1 (totalVotes2024 m)
                in ((g0 - d0) * 100) # unitMargins yearMaps ys f)
          else unitMargins yearMaps ys f)"

text \<open>
  The loop \<^verbatim>\<open>for (i=1; i<margins.length; i++) { sumAbs += |margins[i]-margins[i-1]|; cnt++ }\<close>
  on the pair \<open>(sumAbs, cnt)\<close>.
\<close>

fun absDeltas :: "real list \<Rightarrow> real \<times> nat \<Rightarrow> real \<times> nat" where
  "absDeltas (a # b # ms) (sumAbs, cnt) = absDeltas (b # ms) (sumAbs + \<bar>b - a\<bar>, cnt + 1)"
| "absDeltas ms acc = acc"

definition elasticityOf :: "real list \<Rightarrow> real" where
  "elasticityOf margins =
     (if length margins \<ge> 2
      then (let (sumAbs, cnt) = absDeltas margins (0, 0);
                avg = (if cnt \<noteq> 0 then sumAbs / real cnt else 0)
            in max 0.5 (min 3 (0.5 + avg / 5)))
      else 1)"

subsection \<open>Targeted outcome solver\<close>

definition clearSolver :: "bool \<Rightarrow> page_state \<Rightarrow> page_state" where
  "clearSolver refresh st =
     st\<lparr>solverLocalSwings := Map.empty, solverActive := False,
        tickKey := (if refresh then tickKey st + 1 else tickKey st)\<rparr>"

text \<open>\<^verbatim>\<open>entries.reduce((acc,b) => acc + Math.max(0, Number(b.totalVotes2024||0)), 0)\<close>\<close>

definition totalTurnout :: "CountyBaseline list \<Rightarrow> real" where
  "totalTurnout es = fold (\<lambda>b acc. acc + turnout b) es 0"

text \<open>The loop that fills \<^verbatim>\<open>eMap\<close>, keyed by the \<^verbatim>\<open>fips\<close> of each entry.\<close>

definition elasticityMap :: "page_state \<Rightarrow> CountyBaseline list \<Rightarrow> (string \<rightharpoonup> real)" where
  "elasticityMap st es =
     (let yearMaps = baselineByYear st;
          years = js_sort (map fst yearMaps)
      in fold (\<lambda>b eMap. eMap(fips b \<mapsto> elasticityOf (unitMargins (map_of yearMaps) years (fips b))))
              es Map.empty)"

text \<open>
  \<^verbatim>\<open>solverMode==='elastic' ? (eMap.get(b.fips)||1) : 1\<close>, as a function of
  \<^verbatim>\<open>b.fips\<close>.
\<close>

definition unitE :: "solver_mode \<Rightarrow> (string \<rightharpoonup> real) \<Rightarrow> string \<Rightarrow> real" where
  "unitE mode eMap f =
     (if mode = Elastic
      then (case eMap f of None \<Rightarrow> 1 | Some e \<Rightarrow> js_or e 1)
      else 1)"

text \<open>The loop that sums \<^verbatim>\<open>denom\<close> and fills \<^verbatim>\<open>wMap\<close>.\<close>

definition denomLoop ::
  "solver_mode \<Rightarrow> (string \<rightharpoonup> real) \<Rightarrow> real \<Rightarrow> CountyBaseline list \<Rightarrow> real \<times> (string \<rightharpoonup> real)" where
  "denomLoop mode eMap T es =
     fold (\<lambda>b (denom, wMap).
             let w = turnout b / T
             in (denom + w * unitE mode eMap (fips b), wMap(fips b \<mapsto> w)))
          es (0, Map.empty)"

text \<open>The loop that fills \<^verbatim>\<open>local\<close> and tracks \<^verbatim>\<open>maxAbs\<close>.\<close>

definition localLoop ::
  "solver_mode \<Rightarrow> (string \<rightharpoonup> real) \<Rightarrow> real \<Rightarrow> real \<Rightarrow> CountyBaseline list
     \<Rightarrow> (string \<rightharpoonup> local_swing) \<times> real" where
  "localLoop mode eMap delta denom es =
     fold (\<lambda>b (local, maxAbs).
             let e = unitE mode eMap (fips b);
                 dCounty = (delta * e) / denom;
                 gv = dCounty / 2;
                 dv = - dCounty / 2
             in (local(fips b \<mapsto> \<lparr>dem = dv, gop = gv\<rparr>), max maxAbs \<bar>dCounty\<bar>))
          es (Map.empty, 0)"

text \<open>
  \<^verbatim>\<open>runSolver\<close>, on the parsed target. Nothing in the body of its \<^verbatim>\<open>try\<close> throws,
  so the \<^verbatim>\<open>catch\<close> branch has no counterpart here. The weight read back from
  \<^verbatim>\<open>wMap\<close> in the last loop is not used by the source and is left out.
\<close>

definition runSolver :: "page_state \<Rightarrow> js_number \<Rightarrow> page_state" where
  "runSolver st target =
     (case target of
        Fin tgt \<Rightarrow>
          (let current = computeCurrentStatewideMarginNoLocal st;
               delta = tgt - current
           in if \<bar>delta\<bar> < 0.05
              then (clearSolver False st)\<lparr>solverStatus := AlreadyWithin delta\<rparr>
              else
                (let es = entries st
                 in if es = [] then st\<lparr>solverStatus := NoBaselineData\<rparr>
                    else
                      (let T = totalTurnout es
                       in if T \<le> 0 then st\<lparr>solverStatus := ZeroTotalVotes\<rparr>
                          else
                            (let eMap = elasticityMap st es;
                                 (denom, wMap) = denomLoop (solverMode st) eMap T es;
                                 denom = (if denom \<le> 0 then 1 else denom);
                                 (local, maxAbs) = localLoop (solverMode st) eMap delta denom es
                             in st\<lparr>solverLocalSwings := local, solverActive := True,
                                   solverStatus := Applied (solverMode st) delta maxAbs,
                                   tickKey := tickKey st + 1\<rparr>))))
      | _ \<Rightarrow> st\<lparr>solverStatus := EnterNumericTarget\<rparr>)"

subsection \<open>Double arithmetic\<close>

text \<open>
  The arithmetic of the code is that of IEEE 754 doubles. Where rounding decides a
  property, every operation is followed by \<open>fl\<close>, the rounding of a real number to
  the nearest double, ties to even: \<open>binade a\<close> is the power of two at or below
  \<open>a\<close>, from \<open>1 / 2 ^ 1022\<close> (below it the doubles are subnormal and keep that
  spacing) to \<open>2 ^ 1023\<close>, and a double is a multiple of \<open>binade a / 2 ^ 52\<close>.
  Overflow to an infinity is not modelled: the shares are clamped to \<open>[0, 1]\<close>
  before they are used, and the clamp of an infinity is the clamp of any large number.
\<close>

definition round_even :: "real \<Rightarrow> int" where
  "round_even y =
     (let f = \<lfloor>y\<rfloor>; r = y - of_int f
      in if r < 1 / 2 then f else if 1 / 2 < r then f + 1 else if even f then f else f + 1)"

fun binade_up :: "nat \<Rightarrow> real \<Rightarrow> real \<Rightarrow> real" where
  "binade_up n p a = (if n = 0 \<or> a < 2 * p then p else binade_up (n - 1) (2 * p) a)"

fun binade_down :: "nat \<Rightarrow> real \<Rightarrow> real \<Rightarrow> real" where
  "binade_down n p a = (if n = 0 \<or> p \<le> a then p else binade_down (n - 1) (p / 2) a)"

text \<open>The search for the binade stops at the least and at the greatest exponent.\<close>

definition binade :: "real \<Rightarrow> real" where
  "binade a = (if 1 \<le> a then binade_up 1023 1 a else binade_down 1022 1 a)"

definition fl :: "real \<Rightarrow> real" where
  "fl x = (let u = binade \<bar>x\<bar> / 2 ^ 52 in u * of_int (round_even (x / u)))"

declare binade_up.simps [simp del] binade_down.simps [simp del]

text \<open>
  \<^verbatim>\<open>computeSharesAfterSwing\<close> and \<^verbatim>\<open>projectedSwing\<close> with every operation rounded
  (\<^verbatim>\<open>Math.max\<close> and \<^verbatim>\<open>Math.min\<close> are exact).
\<close>

definition computeSharesAfterSwingD :: "real \<Rightarrow> real \<Rightarrow> real \<Rightarrow> real \<Rightarrow> share_pair" where
  "computeSharesAfterSwingD dShare0 gShare0 demSwingPP gopSwingPP =
     (let dS = fl (dShare0 + fl (demSwingPP / 100));
          gS = fl (gShare0 + fl (gopSwingPP / 100));
          dS = clamp dS 0 1;
          gS = clamp gS 0 1;
          sumDG = fl (dS + gS)
      in if sumDG > 1
         then (let scale = fl (1 / sumDG) in \<lparr>dShare = fl (dS * scale), gShare = fl (gS * scale)\<rparr>)
         else \<lparr>dShare = dS, gShare = gS\<rparr>)"

definition projectedSwingD :: "page_state \<Rightarrow> CountyBaseline option \<Rightarrow> string option \<Rightarrow> swing_result" where
  "projectedSwingD st base fipsArg =
     (case base of
        None \<Rightarrow> \<lparr>swing = 0, newMargin = 0, baseMargin = 0,
                  baseShares = None, newShares = None, localApplied = None\<rparr>
      | Some b \<Rightarrow>
          if totalVotes2024 b \<le> 0
          then \<lparr>swing = 0, newMargin = 0, baseMargin = 0,
                 baseShares = None, newShares = None, localApplied = None\<rparr>
          else
            (let gShare0 = fl (votesGop2024 b / max 1 (totalVotes2024 b));
                 dShare0 = fl (votesDem2024 b / max 1 (totalVotes2024 b));
                 baseM = fl (fl (gShare0 - dShare0) * 100);
                 loc = localFor st fipsArg;
                 dS = fl (fl (dShare0 + fl (demSwing st / 100)) + fl (dem loc / 100));
                 gS = fl (fl (gShare0 + fl (gopSwing st / 100)) + fl (gop loc / 100));
                 dS = clamp dS 0 1;
                 gS = clamp gS 0 1;
                 sumDG = fl (dS + gS);
                 (dS, gS) = (if sumDG > 1
                             then (let scale = fl (1 / sumDG) in (fl (dS * scale), fl (gS * scale)))
                             else (dS, gS));
                 newM = fl (fl (gS - dS) * 100)
             in \<lparr>swing = fl (newM - baseM), newMargin = newM, baseMargin = baseM,
                  baseShares = Some \<lparr>shG = gShare0, shD = dShare0\<rparr>,
                  newShares = Some \<lparr>shG = gS, shD = dS\<rparr>,
                  localApplied = Some loc\<rparr>))"

subsection \<open>Exceptions\<close>

datatype js_error = TypeError

text \<open>
  Reading a property of a value that may be \<^verbatim>\<open>undefined\<close> throws a
  \<^verbatim>\<open>TypeError\<close> when it is.
\<close>

definition readProp :: "'o option \<Rightarrow> ('o \<Rightarrow> 'v) \<Rightarrow> js_error + 'v" where
  "readProp obj field = (case obj of None \<Rightarrow> Inl TypeError | Some ob \<Rightarrow> Inr (field ob))"

text \<open>
  The swing transform and the aggregator with this failure written out: each read of a
  property of \<^verbatim>\<open>base\<close> or of the looked-up local swing goes through
  \<open>readProp\<close>, and a failure ends the function, as the exception would.
\<close>

definition localForE :: "page_state \<Rightarrow> string option \<Rightarrow> js_error + local_swing" where
  "localForE st fipsArg =
     (case fipsArg of
        None \<Rightarrow> Inr \<lparr>dem = 0, gop = 0\<rparr>
      | Some f \<Rightarrow>
          if solverActive st \<and> f \<noteq> []
          then (let loc = solverLocalSwings st f
                in if loc \<noteq> None
                   then (case readProp loc dem of
                           Inl e \<Rightarrow> Inl e
                         | Inr localDem \<Rightarrow>
                             (case readProp loc gop of
                                Inl e \<Rightarrow> Inl e
                              | Inr localGop \<Rightarrow> Inr \<lparr>dem = localDem, gop = localGop\<rparr>))
                   else Inr \<lparr>dem = 0, gop = 0\<rparr>)
          else Inr \<lparr>dem = 0, gop = 0\<rparr>)"

definition projectedSwingE ::
  "page_state \<Rightarrow> CountyBaseline option \<Rightarrow> string option \<Rightarrow> js_error + swing_result" where
  "projectedSwingE st base fipsArg =
     (if base = None then Inr zeroResult
      else
        (case readProp base totalVotes2024 of
           Inl e \<Rightarrow> Inl e
         | Inr tv \<Rightarrow>
             if tv \<le> 0 then Inr zeroResult
             else
               (case readProp base votesGop2024 of
                  Inl e \<Rightarrow> Inl e
                | Inr vg \<Rightarrow>
                    (case readProp base votesDem2024 of
                       Inl e \<Rightarrow> Inl e
                     | Inr vd \<Rightarrow>
                         (case localForE st fipsArg of
                            Inl e \<Rightarrow> Inl e
                          | Inr loc \<Rightarrow>
                              (let gShare0 = vg / max 1 tv;
                                   dShare0 = vd / max 1 tv;
                                   baseM = (gShare0 - dShare0) * 100;
                                   dS = dShare0 + (demSwing st / 100) + (dem loc / 100);
                                   gS = gShare0 + (gopSwing st / 100) + (gop loc / 100);
                                   dS = clamp dS 0 1;
                                   gS = clamp gS 0 1;
                                   sumDG = dS + gS;
                                   (dS, gS) = (if sumDG > 1
                                               then (let scale = 1 / sumDG in (dS * scale, gS * scale))
                                               else (dS, gS));
                                   newM = (gS - dS) * 100
                               in Inr \<lparr>swing = newM - baseM, newMargin = newM, baseMargin = baseM,
                                       baseShares = Some \<lparr>shG = gShare0, shD = dShare0\<rparr>,
                                       newShares = Some \<lparr>shG = gS, shD = dS\<rparr>,
                                       localApplied = Some loc\<rparr>))))))"

fun accumulateE ::
  "(CountyBaseline \<Rightarrow> js_error + real) \<Rightarrow> CountyBaseline list \<Rightarrow> real \<times> real \<Rightarrow> js_error + real \<times> real" where
  "accumulateE mOf [] acc = Inr acc"
| "accumulateE mOf (b # bs) (T, s) =
     (case mOf b of
        Inl e \<Rightarrow> Inl e
      | Inr m \<Rightarrow> accumulateE mOf bs (T + turnout b, s + (m / 100) * turnout b))"

definition computeStateProjectedMarginE :: "page_state \<Rightarrow> string \<Rightarrow> js_error + real" where
  "computeStateProjectedMarginE st stateFipsArg =
     (let es = filter (\<lambda>b. stateFips b = stateFipsArg) (entries st)
      in if es = [] then Inr 0
         else
           (case accumulateE
                   (\<lambda>b. case projectedSwingE st (Some b) (Some (fips b)) of
                           Inl e \<Rightarrow> Inl e
                         | Inr r \<Rightarrow> Inr (if anySwing st then newMargin r else baseMargin r))
                   es (0, 0) of
              Inl e \<Rightarrow> Inl e
            | Inr (T, s) \<Rightarrow> Inr (if T > 0 then (s / T) * 100 else 0)))"

subsection \<open>The quantities of the specification\<close>

text \<open>
  The margin of a baseline record by the share formula without swing, the records of a
  unit over a list of cycles, and the elasticity estimate in the words of the
  specification: neutral below two cycles with positive turnout, otherwise the mean
  absolute change between consecutive margins, scaled and clamped.
\<close>

definition recordMargin :: "CountyBaseline \<Rightarrow> real" where
  "recordMargin c =
     (votesGop2024 c / max 1 (totalVotes2024 c) - votesDem2024 c / max 1 (totalVotes2024 c)) * 100"

definition unitCycles ::
  "(nat \<rightharpoonup> (string \<rightharpoonup> CountyBaseline)) \<Rightarrow> nat list \<Rightarrow> string \<Rightarrow> CountyBaseline list" where
  "unitCycles yearMaps years f =
     List.map_filter (\<lambda>y. case yearMaps y of None \<Rightarrow> None | Some ym \<Rightarrow> ym f) years"

definition avgAbsDelta :: "real list \<Rightarrow> real" where
  "avgAbsDelta ms = (\<Sum>(a, b)\<leftarrow>zip ms (tl ms). \<bar>b - a\<bar>) / real (length ms - 1)"

definition estimateElasticity :: "CountyBaseline list \<Rightarrow> real" where
  "estimateElasticity cyclesAscending =
     (let pos = filter (\<lambda>c. totalVotes2024 c > 0) cyclesAscending
      in if length pos < 2 then 1
         else clamp (0.5 + avgAbsDelta (map recordMargin pos) / 5) 0.5 3)"

text \<open>
  The quantities of the solver: the weight \<open>w\<^sub>i\<close> of a unit, its elasticity
  \<open>e\<^sub>i\<close> under the mode of the state, the denominator and the margin delta of a unit.
\<close>

definition solverWeight :: "page_state \<Rightarrow> CountyBaseline \<Rightarrow> real" where
  "solverWeight st b = turnout b / (\<Sum>u\<leftarrow>entries st. turnout u)"

definition solverElasticity :: "page_state \<Rightarrow> CountyBaseline \<Rightarrow> real" where
  "solverElasticity st b =
     (if solverMode st = Elastic
      then estimateElasticity
             (unitCycles (map_of (baselineByYear st)) (js_sort (map fst (baselineByYear st))) (fips b))
      else 1)"

definition solverDenom :: "page_state \<Rightarrow> real" where
  "solverDenom st = (\<Sum>b\<leftarrow>entries st. solverWeight st b * solverElasticity st b)"

definition dUnit :: "page_state \<Rightarrow> real \<Rightarrow> CountyBaseline \<Rightarrow> real" where
  "dUnit st delta b = delta * solverElasticity st b / solverDenom st"

text \<open>
  The two shares of \<^verbatim>\<open>projectedSwing\<close> after the clamp and before the rescale,
  as the pair \<open>(dShare, gShare)\<close>.
\<close>

definition clampedShares :: "page_state \<Rightarrow> CountyBaseline \<Rightarrow> string option \<Rightarrow> real \<times> real" where
  "clampedShares st b fipsArg =
     (let loc = localFor st fipsArg
      in (clamp (votesDem2024 b / max 1 (totalVotes2024 b) + (demSwing st / 100) + (dem loc / 100)) 0 1,
          clamp (votesGop2024 b / max 1 (totalVotes2024 b) + (gopSwing st / 100) + (gop loc / 100)) 0 1))"

subsection \<open>Sample data\<close>

definition unitA :: CountyBaseline where
  "unitA = \<lparr>fips = ''17031'', stateFips = ''17'', countyName = ''Cook'',
            totalVotes2024 = 1000, votesGop2024 = 550, votesDem2024 = 450\<rparr>"

definition unitB :: CountyBaseline where
  "unitB = \<lparr>fips = ''17043'', stateFips = ''17'', countyName = ''DuPage'',
            totalVotes2024 = 100, votesGop2024 = 60, votesDem2024 = 80\<rparr>"

definition unitZero :: CountyBaseline where
  "unitZero = \<lparr>fips = ''17097'', stateFips = ''17'', countyName = ''Lake'',
            totalVotes2024 = 0, votesGop2024 = 0, votesDem2024 = 0\<rparr>"

definition sliderState :: page_state where
  "sliderState = \<lparr>baseMap = [(''17031'', unitA), (''17043'', unitB), (''17097'', unitZero)],
                   baselineByYear = [],
                   demSwing = 5, gopSwing = -5, solverMode = Uniform, solverActive = False,
                   solverLocalSwings = Map.empty, solverStatus = NoStatus, tickKey = 0\<rparr>"

text \<open>Two units of one state with margins \<open>+10\<close> and \<open>-10\<close> and no swing.\<close>

definition unitC :: CountyBaseline where
  "unitC = \<lparr>fips = ''17089'', stateFips = ''17'', countyName = ''Kane'',
            totalVotes2024 = 100, votesGop2024 = 55, votesDem2024 = 45\<rparr>"

definition unitD :: CountyBaseline where
  "unitD = \<lparr>fips = ''17197'', stateFips = ''17'', countyName = ''Will'',
            totalVotes2024 = 300, votesGop2024 = 135, votesDem2024 = 165\<rparr>"

definition twoUnitState :: page_state where
  "twoUnitState = \<lparr>baseMap = [(''17089'', unitC), (''17197'', unitD)],
                   baselineByYear = [],
                   demSwing = 0, gopSwing = 0, solverMode = Uniform, solverActive = False,
                   solverLocalSwings = Map.empty, solverStatus = NoStatus, tickKey = 0\<rparr>"

text \<open>
  Two units with margins \<open>+10\<close> and \<open>-6\<close> and equal turnout, so a weighted margin
  of 2, with their records of 2020 (margins 0 and \<open>-4\<close>), in each solver mode.
\<close>

definition unitF :: CountyBaseline where
  "unitF = \<lparr>fips = ''17111'', stateFips = ''17'', countyName = ''McHenry'',
            totalVotes2024 = 1000, votesGop2024 = 470, votesDem2024 = 530\<rparr>"

definition unitA2020 :: CountyBaseline where
  "unitA2020 = \<lparr>fips = ''17031'', stateFips = ''17'', countyName = ''Cook'',
                totalVotes2024 = 1000, votesGop2024 = 500, votesDem2024 = 500\<rparr>"

definition unitF2020 :: CountyBaseline where
  "unitF2020 = \<lparr>fips = ''17111'', stateFips = ''17'', countyName = ''McHenry'',
                totalVotes2024 = 1000, votesGop2024 = 480, votesDem2024 = 520\<rparr>"

definition elasticState :: page_state where
  "elasticState = \<lparr>baseMap = [(''17031'', unitA), (''17111'', unitF)],
                   baselineByYear =
                     [(2024, [''17031'' \<mapsto> unitA, ''17111'' \<mapsto> unitF]),
                      (2020, [''17031'' \<mapsto> unitA2020, ''17111'' \<mapsto> unitF2020])],
                   demSwing = 0, gopSwing = 0, solverMode = Elastic, solverActive = False,
                   solverLocalSwings = Map.empty, solverStatus = NoStatus, tickKey = 0\<rparr>"

definition uniformState :: page_state where
  "uniformState = elasticState\<lparr>solverMode := Uniform\<rparr>"

text \<open>
  The page before any baseline is loaded, and a page whose only unit has no votes while
  local swings of an earlier solve are still active.
\<close>

definition emptyState :: page_state where
  "emptyState = \<lparr>baseMap = [], baselineByYear = [],
                   demSwing = 0, gopSwing = 0, solverMode = Elastic, solverActive = False,
                   solverLocalSwings = Map.empty, solverStatus = NoStatus, tickKey = 0\<rparr>"

definition staleState :: page_state where
  "staleState = \<lparr>baseMap = [(''17097'', unitZero)], baselineByYear = [],
                   demSwing = 0, gopSwing = 0, solverMode = Elastic, solverActive = True,
                   solverLocalSwings = [''17097'' \<mapsto> \<lparr>dem = - 1, gop = 1\<rparr>],
                   solverStatus = NoStatus, tickKey = 0\<rparr>"

text \<open>
  A unit with 900 Democratic votes out of 1000 under a Republican swing of 25 points.
\<close>

definition unitR :: CountyBaseline where
  "unitR = \<lparr>fips = ''17019'', stateFips = ''17'', countyName = ''Champaign'',
            totalVotes2024 = 1000, votesGop2024 = 0, votesDem2024 = 900\<rparr>"

definition roundingState :: page_state where
  "roundingState = \<lparr>baseMap = [(''17019'', unitR)], baselineByYear = [],
                   demSwing = 0, gopSwing = 25, solverMode = Uniform, solverActive = False,
                   solverLocalSwings = Map.empty, solverStatus = NoStatus, tickKey = 0\<rparr>"

section \<open>Verified properties\<close>

subsection \<open>Shares stay within bounds\<close>

lemma clamp01: "0 \<le> clamp v 0 1 \<and> clamp v 0 1 \<le> 1"
  by (simp add: clamp_def)

lemma rescale_bounds:
  fixes a b :: real
  assumes "0 \<le> a" "a \<le> 1" "0 \<le> b" "b \<le> 1" "1 < a + b"
  shows "0 \<le> a * (1 / (a + b))" "a * (1 / (a + b)) \<le> 1"
        "0 \<le> b * (1 / (a + b))" "b * (1 / (a + b)) \<le> 1"
        "a * (1 / (a + b)) + b * (1 / (a + b)) = 1"
        "b * (1 / (a + b)) + a * (1 / (a + b)) = 1"
proof -
  have pos: "0 < a + b" using assms by linarith
  show "0 \<le> a * (1 / (a + b))" "0 \<le> b * (1 / (a + b))"
    using assms pos by simp_all
  show "a * (1 / (a + b)) \<le> 1" "b * (1 / (a + b)) \<le> 1"
    using assms pos by simp_all
  have "a * (1 / (a + b)) + b * (1 / (a + b)) = (a + b) * (1 / (a + b))"
    by (simp only: distrib_right)
  also have "\<dots> = 1" using pos by simp
  finally show "a * (1 / (a + b)) + b * (1 / (a + b)) = 1" .
  then show "b * (1 / (a + b)) + a * (1 / (a + b)) = 1" by (simp only: add.commute)
qed

lemma css_bounds:
  "0 \<le> gShare (computeSharesAfterSwing d0 g0 dpp gpp) \<and>
   gShare (computeSharesAfterSwing d0 g0 dpp gpp) \<le> 1 \<and>
   0 \<le> dShare (computeSharesAfterSwing d0 g0 dpp gpp) \<and>
   dShare (computeSharesAfterSwing d0 g0 dpp gpp) \<le> 1 \<and>
   gShare (computeSharesAfterSwing d0 g0 dpp gpp) + dShare (computeSharesAfterSwing d0 g0 dpp gpp) \<le> 1"
proof -
  define a where "a = clamp (d0 + dpp / 100) 0 1"
  define b where "b = clamp (g0 + gpp / 100) 0 1"
  have ab: "0 \<le> a" "a \<le> 1" "0 \<le> b" "b \<le> 1"
    using clamp01 by (simp_all add: a_def b_def)
  show ?thesis
  proof (cases "1 < a + b")
    case True
    with rescale_bounds[OF ab True] ab show ?thesis
      by (simp add: computeSharesAfterSwing_def Let_def a_def[symmetric] b_def[symmetric])
  next
    case False
    with ab show ?thesis
      by (simp add: computeSharesAfterSwing_def Let_def a_def[symmetric] b_def[symmetric])
  qed
qed

lemma ps_shares:
  assumes "0 < totalVotes2024 b"
  shows "\<exists>s. newShares (projectedSwing st (Some b) f) = Some s \<and>
          0 \<le> shG s \<and> shG s \<le> 1 \<and> 0 \<le> shD s \<and> shD s \<le> 1 \<and> shG s + shD s \<le> 1"
proof -
  define a where "a = clamp (votesDem2024 b / max 1 (totalVotes2024 b) + demSwing st / 100 + dem (localFor st f) / 100) 0 1"
  define c where "c = clamp (votesGop2024 b / max 1 (totalVotes2024 b) + gopSwing st / 100 + gop (localFor st f) / 100) 0 1"
  have ab: "0 \<le> a" "a \<le> 1" "0 \<le> c" "c \<le> 1"
    using clamp01 by (simp_all add: a_def c_def)
  show ?thesis
  proof (cases "1 < a + c")
    case True
    with rescale_bounds[OF ab True] ab assms show ?thesis
      by (simp add: projectedSwing_def Let_def a_def[symmetric] c_def[symmetric])
  next
    case False
    with ab assms show ?thesis
      by (simp add: projectedSwing_def Let_def a_def[symmetric] c_def[symmetric])
  qed
qed

text \<open>
  The rounding of a real number to a double: the error is at most half a unit in the
  last place, the sign is kept, and no number of \<open>[0, 1]\<close> is rounded above 1.
\<close>

lemma floor_bounds: "of_int \<lfloor>y\<rfloor> \<le> y \<and> y < of_int \<lfloor>y\<rfloor> + 1" for y :: real
  by linarith

lemma round_even_cases: "round_even y = \<lfloor>y\<rfloor> \<or> round_even y = \<lfloor>y\<rfloor> + 1"
  by (simp add: round_even_def Let_def)

lemma round_even_err: "\<bar>of_int (round_even y) - y\<bar> \<le> 1 / 2"
  using floor_bounds[of y] by (auto simp: round_even_def Let_def)

lemma round_even_nonneg: "0 \<le> y \<Longrightarrow> 0 \<le> round_even y"
  using round_even_cases[of y] by auto

lemma round_even_le:
  assumes "y \<le> of_int N"
  shows "round_even y \<le> N"
proof -
  have fl: "\<lfloor>y\<rfloor> \<le> N" using assms by (simp add: floor_le_iff)
  show ?thesis
  proof (cases "round_even y = \<lfloor>y\<rfloor>")
    case True
    with fl show ?thesis by simp
  next
    case False
    then have r: "round_even y = \<lfloor>y\<rfloor> + 1" using round_even_cases[of y] by blast
    have "1 / 2 \<le> y - of_int \<lfloor>y\<rfloor>"
      using False by (auto simp: round_even_def Let_def split: if_splits)
    then have "of_int \<lfloor>y\<rfloor> < y" by linarith
    then have "of_int \<lfloor>y\<rfloor> < (of_int N :: real)" using assms by linarith
    then have "\<lfloor>y\<rfloor> < N" by simp
    with r show ?thesis by simp
  qed
qed

lemma binade_up_pos: "0 < p \<Longrightarrow> 0 < binade_up n p a"
  by (induction n p a rule: binade_up.induct) (subst binade_up.simps, auto)

lemma binade_up_le: "p \<le> a \<Longrightarrow> binade_up n p a \<le> a"
  by (induction n p a rule: binade_up.induct) (subst binade_up.simps, auto)

lemma binade_down_pos: "0 < p \<Longrightarrow> 0 < binade_down n p a"
  by (induction n p a rule: binade_down.induct) (subst binade_down.simps, auto)

lemma binade_down_pow: "\<exists>k\<le>n. binade_down n p a = p / 2 ^ k"
proof (induction n p a rule: binade_down.induct)
  case (1 n p a)
  show ?case
  proof (cases "n = 0 \<or> p \<le> a")
    case True
    then have "binade_down n p a = p / 2 ^ 0" by (subst binade_down.simps) simp
    then show ?thesis by blast
  next
    case False
    from 1[OF False] obtain k where k: "k \<le> n - 1" "binade_down (n - 1) (p / 2) a = p / 2 / 2 ^ k"
      by blast
    have "binade_down n p a = p / 2 ^ Suc k"
      using False k(2) by (subst binade_down.simps) simp
    moreover have "Suc k \<le> n" using False k(1) by arith
    ultimately show ?thesis by blast
  qed
qed

lemma binade_down_cases: "binade_down n p a \<le> a \<or> binade_down n p a = p / 2 ^ n"
proof (induction n p a rule: binade_down.induct)
  case (1 n p a)
  show ?case
  proof (cases "n = 0 \<or> p \<le> a")
    case True
    then show ?thesis by (subst (1 2) binade_down.simps) auto
  next
    case False
    then have "(2::real) ^ n = 2 * 2 ^ (n - 1)"
      by (cases n) simp_all
    then have e: "p / 2 / 2 ^ (n - 1) = p / 2 ^ n" by simp
    have s: "binade_down n p a = binade_down (n - 1) (p / 2) a"
      using False by (subst binade_down.simps) simp
    from 1[OF False] show ?thesis unfolding s e .
  qed
qed

lemma binade_pos: "0 < binade a"
  by (simp add: binade_def binade_up_pos binade_down_pos)

lemma binade_small: "binade a \<le> a \<or> binade a = 1 / 2 ^ 1022"
  using binade_down_cases[of 1022 1 a] binade_up_le[of 1 a 1023]
  by (auto simp: binade_def)

lemma binade_le: "1 / 2 ^ 1022 \<le> a \<Longrightarrow> binade a \<le> a"
  using binade_small[of a] by auto

lemma binade_unit:
  assumes "a \<le> 1"
  shows "\<exists>k. binade a = 1 / 2 ^ k"
proof (cases "a = 1")
  case True
  have "binade_up 1023 1 1 = 1" by (subst binade_up.simps) simp
  then have "binade a = 1 / 2 ^ 0" using True by (simp add: binade_def)
  then show ?thesis by blast
next
  case False
  then have "binade a = binade_down 1022 1 a" using assms by (simp add: binade_def)
  with binade_down_pow[of 1022 1 a] show ?thesis by auto
qed

lemma fl_err: "\<bar>fl x - x\<bar> \<le> binade \<bar>x\<bar> / 2 ^ 53"
proof -
  define u where "u = binade \<bar>x\<bar> / 2 ^ 52"
  have u: "0 < u" by (simp add: u_def binade_pos)
  have "fl x = u * of_int (round_even (x / u))"
    unfolding fl_def Let_def u_def ..
  then have "fl x - x = u * (of_int (round_even (x / u)) - x / u)"
    using u by (simp add: algebra_simps)
  then have "\<bar>fl x - x\<bar> = u * \<bar>of_int (round_even (x / u)) - x / u\<bar>"
    using u by (simp add: abs_mult)
  also have "\<dots> \<le> u * (1 / 2)"
    using u round_even_err[of "x / u"] by (intro mult_left_mono) simp_all
  also have "\<dots> = binade \<bar>x\<bar> / 2 ^ 53" by (simp add: u_def)
  finally show ?thesis .
qed

lemma fl_rel: "1 / 2 ^ 1022 \<le> \<bar>x\<bar> \<Longrightarrow> \<bar>fl x - x\<bar> \<le> \<bar>x\<bar> / 2 ^ 53"
proof -
  assume "1 / 2 ^ 1022 \<le> \<bar>x\<bar>"
  then have "binade \<bar>x\<bar> \<le> \<bar>x\<bar>" by (rule binade_le)
  then have "binade \<bar>x\<bar> / 2 ^ 53 \<le> \<bar>x\<bar> / 2 ^ 53" by (rule divide_right_mono) simp
  with fl_err[of x] show ?thesis by (rule order_trans)
qed

lemma fl_abs: "\<bar>fl x - x\<bar> \<le> \<bar>x\<bar> / 2 ^ 53 + 1 / 2 ^ 1075"
proof -
  from binade_small[of "\<bar>x\<bar>"] have "binade \<bar>x\<bar> / 2 ^ 53 \<le> \<bar>x\<bar> / 2 ^ 53 + 1 / 2 ^ 1075"
  proof
    assume "binade \<bar>x\<bar> \<le> \<bar>x\<bar>"
    then have "binade \<bar>x\<bar> / 2 ^ 53 \<le> \<bar>x\<bar> / 2 ^ 53" by (rule divide_right_mono) simp
    moreover have "(0::real) \<le> 1 / 2 ^ 1075" by simp
    ultimately show ?thesis by (rule add_increasing2[rotated])
  next
    assume "binade \<bar>x\<bar> = 1 / 2 ^ 1022"
    then have "binade \<bar>x\<bar> / 2 ^ 53 = 1 / (2 ^ 1022 * 2 ^ 53)" by simp
    also have "\<dots> = 1 / 2 ^ 1075" by (simp only: power_add[symmetric]) simp
    finally have "binade \<bar>x\<bar> / 2 ^ 53 = 1 / 2 ^ 1075" .
    moreover have "0 \<le> \<bar>x\<bar> / 2 ^ 53" by simp
    ultimately show ?thesis by (simp only: add_increasing)
  qed
  with fl_err[of x] show ?thesis by (rule order_trans)
qed

lemma fl_nonneg: "0 \<le> x \<Longrightarrow> 0 \<le> fl x"
proof -
  assume x: "0 \<le> x"
  define u where "u = binade \<bar>x\<bar> / 2 ^ 52"
  have u: "0 < u" by (simp add: u_def binade_pos)
  then have "0 \<le> x / u" using x by simp
  then have "0 \<le> round_even (x / u)" by (rule round_even_nonneg)
  then have "0 \<le> u * of_int (round_even (x / u))" using u by simp
  then show ?thesis unfolding fl_def Let_def u_def .
qed

lemma fl_le_one:
  assumes "0 \<le> x" "x \<le> 1"
  shows "fl x \<le> 1"
proof -
  from binade_unit[of "\<bar>x\<bar>"] assms obtain k where k: "binade \<bar>x\<bar> = 1 / 2 ^ k" by auto
  define u :: real where "u = 1 / 2 ^ (k + 52)"
  have uu: "binade \<bar>x\<bar> / 2 ^ 52 = u" by (simp add: k u_def power_add)
  have "x / u \<le> of_int (2 ^ (k + 52))"
    using assms by (simp add: u_def)
  then have "round_even (x / u) \<le> 2 ^ (k + 52)" by (rule round_even_le)
  then have "(of_int (round_even (x / u)) :: real) \<le> of_int (2 ^ (k + 52))"
    by (simp only: of_int_le_iff)
  then have "u * of_int (round_even (x / u)) \<le> u * 2 ^ (k + 52)"
    by (intro mult_left_mono) (simp_all add: u_def)
  also have "\<dots> = 1" by (simp add: u_def)
  finally show ?thesis unfolding fl_def Let_def uu .
qed

lemma rounding_budget:
  "(1 + 1 / 2 ^ 53) * ((1 + 1 / 2 ^ 53) / (1 - 1 / 2 ^ 53)) + 2 * (1 / 2 ^ 1075) \<le> (1 + 1 / 2 ^ 51 :: real)"
  by simp

lemma err_upper:
  fixes x y u c :: real
  assumes "\<bar>y - x\<bar> \<le> \<bar>x\<bar> * u + c" "0 \<le> x"
  shows "y \<le> x * (1 + u) + c"
proof -
  have "y - x \<le> \<bar>y - x\<bar>" by simp
  with assms have "y - x \<le> x * u + c" by simp
  then show ?thesis by (simp add: algebra_simps)
qed

lemma err_lower:
  fixes x y u :: real
  assumes "\<bar>y - x\<bar> \<le> \<bar>x\<bar> * u" "0 \<le> x"
  shows "x * (1 - u) \<le> y"
proof -
  have "x - y \<le> \<bar>y - x\<bar>" by simp
  with assms have "x - y \<le> x * u" by simp
  then show ?thesis by (simp add: algebra_simps)
qed

lemma renormD:
  assumes d: "0 \<le> dC" "dC \<le> 1" and g: "0 \<le> gC" "gC \<le> 1"
    and gt: "1 < fl (dC + gC)"
  shows "0 \<le> fl (dC * fl (1 / fl (dC + gC)))"
    and "fl (dC * fl (1 / fl (dC + gC))) \<le> 1"
    and "0 \<le> fl (gC * fl (1 / fl (dC + gC)))"
    and "fl (gC * fl (1 / fl (dC + gC))) \<le> 1"
    and "fl (dC * fl (1 / fl (dC + gC))) + fl (gC * fl (1 / fl (dC + gC))) \<le> 1 + 1 / 2 ^ 51"
proof -
  define t where "t = dC + gC"
  define s where "s = fl t"
  define x where "x = 1 / s"
  define sc where "sc = fl x"
  define u :: real where "u = 1 / 2 ^ 53"
  define h :: real where "h = 1 / 2 ^ 1075"
  have u: "0 < u" "u < 1" by (simp_all add: u_def)
  have h: "0 \<le> h" by (simp add: h_def)
  have s1: "1 < s" using gt by (simp add: s_def t_def)
  have t0: "0 \<le> t" using d g by (simp add: t_def)
  have t1: "1 < t"
  proof (rule ccontr)
    assume "\<not> 1 < t"
    then have "t \<le> 1" by simp
    with t0 have "fl t \<le> 1" by (rule fl_le_one)
    with s1 show False by (simp add: s_def)
  qed
  have small: "(1::real) / 2 ^ 1022 \<le> 1 / 3" by simp
  have "1 / 2 ^ 1022 \<le> \<bar>t\<bar>" using t1 small by linarith
  then have "\<bar>s - t\<bar> \<le> \<bar>t\<bar> / 2 ^ 53" unfolding s_def by (rule fl_rel)
  then have st: "\<bar>s - t\<bar> \<le> \<bar>t\<bar> * u" "\<bar>s - t\<bar> \<le> \<bar>t\<bar> * u + 0"
    by (simp_all add: u_def)
  have lo: "t * (1 - u) \<le> s" using st(1) t0 by (rule err_lower)
  have "s \<le> t * (1 + u) + 0" using st(2) t0 by (rule err_upper)
  then have "s \<le> t * (1 + u)" by simp
  also have "\<dots> \<le> 2 * (1 + u)"
  proof (rule mult_right_mono)
    show "t \<le> 2" using d g by (simp add: t_def)
    show "0 \<le> 1 + u" using u by simp
  qed
  also have "\<dots> \<le> 3" using u by (simp add: u_def)
  finally have s3: "s \<le> 3" .
  have x0: "0 < x" using s1 by (simp add: x_def)
  have x1: "x \<le> 1" using s1 by (simp add: x_def)
  have "1 / 3 \<le> x" using s1 s3 by (simp add: x_def field_simps)
  then have "1 / 2 ^ 1022 \<le> \<bar>x\<bar>" using small by linarith
  then have "\<bar>sc - x\<bar> \<le> \<bar>x\<bar> / 2 ^ 53" unfolding sc_def by (rule fl_rel)
  then have "\<bar>sc - x\<bar> \<le> \<bar>x\<bar> * u + 0" by (simp add: u_def)
  then have "sc \<le> x * (1 + u) + 0" using x0 by (intro err_upper) simp_all
  then have scx: "sc \<le> x * (1 + u)" by simp
  have sc0: "0 \<le> sc" unfolding sc_def using x0 by (intro fl_nonneg) simp
  have sc1: "sc \<le> 1" unfolding sc_def using x0 x1 by (intro fl_le_one) simp_all
  have pd: "0 \<le> dC * sc" "dC * sc \<le> 1"
    using d sc0 sc1 by (simp_all add: mult_le_one)
  have pg: "0 \<le> gC * sc" "gC * sc \<le> 1"
    using g sc0 sc1 by (simp_all add: mult_le_one)
  have e: "fl (dC * fl (1 / fl (dC + gC))) = fl (dC * sc)"
    "fl (gC * fl (1 / fl (dC + gC))) = fl (gC * sc)"
    by (simp_all add: sc_def x_def s_def t_def)
  show "0 \<le> fl (dC * fl (1 / fl (dC + gC)))" unfolding e using pd(1) by (rule fl_nonneg)
  show "fl (dC * fl (1 / fl (dC + gC))) \<le> 1" unfolding e using pd by (rule fl_le_one)
  show "0 \<le> fl (gC * fl (1 / fl (dC + gC)))" unfolding e using pg(1) by (rule fl_nonneg)
  show "fl (gC * fl (1 / fl (dC + gC))) \<le> 1" unfolding e using pg by (rule fl_le_one)
  have "\<bar>fl (dC * sc) - dC * sc\<bar> \<le> \<bar>dC * sc\<bar> / 2 ^ 53 + 1 / 2 ^ 1075" by (rule fl_abs)
  then have "\<bar>fl (dC * sc) - dC * sc\<bar> \<le> \<bar>dC * sc\<bar> * u + h"
    unfolding u_def h_def by simp
  then have ed: "fl (dC * sc) \<le> dC * sc * (1 + u) + h" using pd(1) by (rule err_upper)
  have "\<bar>fl (gC * sc) - gC * sc\<bar> \<le> \<bar>gC * sc\<bar> / 2 ^ 53 + 1 / 2 ^ 1075" by (rule fl_abs)
  then have "\<bar>fl (gC * sc) - gC * sc\<bar> \<le> \<bar>gC * sc\<bar> * u + h"
    unfolding u_def h_def by simp
  then have eg: "fl (gC * sc) \<le> gC * sc * (1 + u) + h" using pg(1) by (rule err_upper)
  have ts: "t / s \<le> 1 / (1 - u)"
  proof -
    have "t \<le> s / (1 - u)" using lo u by (simp add: pos_le_divide_eq)
    then have "t / s \<le> s / (1 - u) / s" using s1 by (intro divide_right_mono) simp_all
    also have "\<dots> = 1 / (1 - u)" using s1 by simp
    finally show ?thesis .
  qed
  have "t * sc \<le> t * (x * (1 + u))" using scx t0 by (rule mult_left_mono)
  also have "\<dots> = (t / s) * (1 + u)" by (simp add: x_def)
  also have "\<dots> \<le> (1 / (1 - u)) * (1 + u)" using ts u by (intro mult_right_mono) simp_all
  finally have tsc: "t * sc \<le> (1 + u) / (1 - u)" by simp
  have "fl (dC * sc) + fl (gC * sc) \<le> (dC * sc * (1 + u) + h) + (gC * sc * (1 + u) + h)"
    using ed eg by (rule add_mono)
  also have "\<dots> = (1 + u) * (t * sc) + 2 * h" by (simp add: t_def algebra_simps)
  also have "\<dots> \<le> (1 + u) * ((1 + u) / (1 - u)) + 2 * h"
    using tsc u by (intro add_right_mono mult_left_mono) simp_all
  also have "\<dots> \<le> 1 + 1 / 2 ^ 51" unfolding u_def h_def by (rule rounding_budget)
  finally show "fl (dC * fl (1 / fl (dC + gC))) + fl (gC * fl (1 / fl (dC + gC))) \<le> 1 + 1 / 2 ^ 51"
    unfolding e .
qed

lemma no_rescaleD:
  assumes d: "0 \<le> dC" "dC \<le> 1" and g: "0 \<le> gC" "gC \<le> 1"
    and le: "\<not> 1 < fl (dC + gC)"
  shows "dC + gC \<le> 1 + 1 / 2 ^ 51"
proof (cases "dC + gC \<le> 1")
  case True
  have "(0::real) \<le> 1 / 2 ^ 51" by simp
  with True show ?thesis by linarith
next
  case False
  define t where "t = dC + gC"
  define u :: real where "u = 1 / 2 ^ 53"
  have t1: "1 < t" using False by (simp add: t_def)
  have small: "(1::real) / 2 ^ 1022 \<le> 1" by simp
  have "1 / 2 ^ 1022 \<le> \<bar>t\<bar>" using t1 small by linarith
  then have "\<bar>fl t - t\<bar> \<le> \<bar>t\<bar> / 2 ^ 53" by (rule fl_rel)
  then have "\<bar>fl t - t\<bar> \<le> \<bar>t\<bar> * u" by (simp add: u_def)
  then have "t * (1 - u) \<le> fl t" using t1 by (intro err_lower) simp_all
  also have "\<dots> \<le> 1" using le by (simp add: t_def)
  finally have "t \<le> 1 / (1 - u)" by (simp add: u_def pos_le_divide_eq)
  also have "\<dots> \<le> 1 + 1 / 2 ^ 51" by (simp add: u_def)
  finally show ?thesis by (simp add: t_def)
qed

lemma cssD_bounds:
  "0 \<le> gShare (computeSharesAfterSwingD d0 g0 dpp gpp) \<and>
   gShare (computeSharesAfterSwingD d0 g0 dpp gpp) \<le> 1 \<and>
   0 \<le> dShare (computeSharesAfterSwingD d0 g0 dpp gpp) \<and>
   dShare (computeSharesAfterSwingD d0 g0 dpp gpp) \<le> 1 \<and>
   gShare (computeSharesAfterSwingD d0 g0 dpp gpp) + dShare (computeSharesAfterSwingD d0 g0 dpp gpp)
     \<le> 1 + 1 / 2 ^ 51"
proof -
  define a where "a = clamp (fl (d0 + fl (dpp / 100))) 0 1"
  define c where "c = clamp (fl (g0 + fl (gpp / 100))) 0 1"
  have ab: "0 \<le> a" "a \<le> 1" "0 \<le> c" "c \<le> 1"
    using clamp01 by (simp_all add: a_def c_def)
  show ?thesis
  proof (cases "1 < fl (a + c)")
    case True
    have r: "computeSharesAfterSwingD d0 g0 dpp gpp
               = \<lparr>dShare = fl (a * fl (1 / fl (a + c))), gShare = fl (c * fl (1 / fl (a + c)))\<rparr>"
      using True by (simp add: computeSharesAfterSwingD_def Let_def a_def[symmetric] c_def[symmetric])
    from renormD[OF ab True] show ?thesis unfolding r by (simp add: add.commute)
  next
    case False
    have r: "computeSharesAfterSwingD d0 g0 dpp gpp = \<lparr>dShare = a, gShare = c\<rparr>"
      using False by (simp add: computeSharesAfterSwingD_def Let_def a_def[symmetric] c_def[symmetric])
    from no_rescaleD[OF ab False] ab show ?thesis unfolding r by (simp add: add.commute)
  qed
qed

lemma fl_0: "fl 0 = 0"
  by (simp add: fl_def round_even_def)

lemma psD_shares:
  assumes "newShares (projectedSwingD st base f) = Some s"
  shows "0 \<le> shG s \<and> shG s \<le> 1 \<and> 0 \<le> shD s \<and> shD s \<le> 1 \<and> shG s + shD s \<le> 1 + 1 / 2 ^ 51"
proof -
  from assms obtain b where b: "base = Some b" "0 < totalVotes2024 b"
    by (cases base) (auto simp: projectedSwingD_def split: if_splits)
  define a where "a = clamp (fl (fl (fl (votesDem2024 b / max 1 (totalVotes2024 b)) + fl (demSwing st / 100))
                          + fl (dem (localFor st f) / 100))) 0 1"
  define c where "c = clamp (fl (fl (fl (votesGop2024 b / max 1 (totalVotes2024 b)) + fl (gopSwing st / 100))
                          + fl (gop (localFor st f) / 100))) 0 1"
  have ab: "0 \<le> a" "a \<le> 1" "0 \<le> c" "c \<le> 1"
    using clamp01 by (simp_all add: a_def c_def)
  show ?thesis
  proof (cases "1 < fl (a + c)")
    case True
    have "newShares (projectedSwingD st base f)
            = Some \<lparr>shG = fl (c * fl (1 / fl (a + c))), shD = fl (a * fl (1 / fl (a + c)))\<rparr>"
      using True b by (simp add: projectedSwingD_def Let_def a_def[symmetric] c_def[symmetric])
    with assms have s: "s = \<lparr>shG = fl (c * fl (1 / fl (a + c))), shD = fl (a * fl (1 / fl (a + c)))\<rparr>"
      by simp
    from renormD[OF ab True] show ?thesis unfolding s by (simp add: add.commute)
  next
    case False
    have "newShares (projectedSwingD st base f) = Some \<lparr>shG = c, shD = a\<rparr>"
      using False b by (simp add: projectedSwingD_def Let_def a_def[symmetric] c_def[symmetric])
    with assms have s: "s = \<lparr>shG = c, shD = a\<rparr>" by simp
    from no_rescaleD[OF ab False] ab show ?thesis unfolding s by (simp add: add.commute)
  qed
qed

lemma fl_values:
  "fl (49 / 64) = 49 / 64"
  "fl (7 / 8) = 7 / 8"
  "fl (105 / 64) = 105 / 64"
  "fl (64 / 105) = 1372525600722437 / 2251799813685248"
  "fl (67253754435399413 / 144115188075855872) = 8406719304424927 / 18014398509481984"
  "fl (9607679205057059 / 18014398509481984) = 2401919801264265 / 4503599627370496"
  "fl (18014398509481987 / 18014398509481984) = 4503599627370497 / 4503599627370496"
  "fl (9 / 10) = 8106479329266893 / 9007199254740992"
  "fl (8106479329266893 / 9007199254740992) = 8106479329266893 / 9007199254740992"
  "fl (1 / 4) = 1 / 4"
  "fl (10358279142952141 / 9007199254740992) = 2589569785738035 / 2251799813685248"
  "fl (2251799813685248 / 2589569785738035) = 3916173589017823 / 4503599627370496"
  "fl (31746380249193922879774500833939 / 40564819207303340847894502572032) = 3524556230116041 / 4503599627370496"
  "fl (3916173589017823 / 18014398509481984) = 3916173589017823 / 18014398509481984"
  "fl (- (1 / 20)) = - (3602879701896397 / 72057594037927936)"
  "fl (144115188075855871 / 360287970189639680) = 3602879701896397 / 9007199254740992"
  "fl (1 / 20) = 3602879701896397 / 72057594037927936"
  "fl (216172782113783809 / 360287970189639680) = 5404319552844595 / 9007199254740992"
  "fl 1 = 1"
  "fl (11 / 20) = 2476979795053773 / 4503599627370496"
  "fl (9 / 20) = 8106479329266893 / 18014398509481984"
  "fl (36028797018963969 / 72057594037927936) = 1 / 2"
  "fl (1 / 2) = 1 / 2"
  "fl (36028797018963971 / 72057594037927936) = 1 / 2"
  by (simp_all add: fl_def binade_def binade_down.simps binade_up.simps round_even_def Let_def)

lemma cssD_sample:
  "computeSharesAfterSwingD (49 / 64) (56 / 64) 0 0
     = \<lparr>dShare = 8406719304424927 / 18014398509481984, gShare = 2401919801264265 / 4503599627370496\<rparr>"
  by (simp add: computeSharesAfterSwingD_def clamp_def fl_0 fl_values Let_def)

lemma cssD_sample_plain:
  "computeSharesAfterSwingD (9 / 20) (11 / 20) (- 5) 5
     = \<lparr>dShare = 3602879701896397 / 9007199254740992, gShare = 5404319552844595 / 9007199254740992\<rparr>"
  by (simp add: computeSharesAfterSwingD_def clamp_def fl_0 fl_values Let_def)

lemma psD_sample:
  "newShares (projectedSwingD roundingState (Some unitR) (Some ''17019''))
     = Some \<lparr>shG = 3916173589017823 / 18014398509481984, shD = 3524556230116041 / 4503599627370496\<rparr>"
  by (simp add: projectedSwingD_def roundingState_def unitR_def localFor_def clamp_def fl_0 fl_values Let_def)

lemma psD_sample_plain:
  "newShares (projectedSwingD sliderState (Some unitA) (Some ''17031'')) = Some \<lparr>shG = 1 / 2, shD = 1 / 2\<rparr>"
  by (simp add: projectedSwingD_def sliderState_def unitA_def localFor_def clamp_def fl_0 fl_values Let_def)

lemma fl_sum_sample: "fl (18014398509481987 / 18014398509481984) = 1 + 1 / 2 ^ 52"
  by (simp add: fl_values)

lemma css_explicit:
  "computeSharesAfterSwing d0 g0 dpp gpp =
     (let dC = clamp (d0 + dpp / 100) 0 1;
          gC = clamp (g0 + gpp / 100) 0 1
      in if dC + gC > 1
         then \<lparr>dShare = dC * (1 / (dC + gC)), gShare = gC * (1 / (dC + gC))\<rparr>
         else \<lparr>dShare = dC, gShare = gC\<rparr>)"
  by (simp add: computeSharesAfterSwing_def Let_def)

lemma ps_explicit:
  assumes "0 < totalVotes2024 b"
  shows "newShares (projectedSwing st (Some b) f) =
     Some (let (dC, gC) = clampedShares st b f
           in if dC + gC > 1
              then \<lparr>shG = gC * (1 / (dC + gC)), shD = dC * (1 / (dC + gC))\<rparr>
              else \<lparr>shG = gC, shD = dC\<rparr>)"
  using assms by (simp add: projectedSwing_def clampedShares_def Let_def)

text \<open>
  Claim C2, as stated, bounds the sum of the two shares by 1. In the double arithmetic
  of the code the rescaled shares can sum to more than 1: for the baseline shares
  \<open>49/64\<close> and \<open>56/64\<close> without swing, and for a unit with 900 Democratic votes
  out of 1000 under a Republican swing of 25 points, the two returned doubles sum to
  \<open>1 + 3 / 2 ^ 54\<close>, and their sum as a double is \<open>1 + 1 / 2 ^ 52\<close>.
\<close>

theorem share_sum_rounding:
  "computeSharesAfterSwingD (49 / 64) (56 / 64) 0 0
     = \<lparr>dShare = 8406719304424927 / 18014398509481984, gShare = 2401919801264265 / 4503599627370496\<rparr> \<and>
   1 < gShare (computeSharesAfterSwingD (49 / 64) (56 / 64) 0 0)
         + dShare (computeSharesAfterSwingD (49 / 64) (56 / 64) 0 0) \<and>
   fl (gShare (computeSharesAfterSwingD (49 / 64) (56 / 64) 0 0)
         + dShare (computeSharesAfterSwingD (49 / 64) (56 / 64) 0 0)) = 1 + 1 / 2 ^ 52 \<and>
   votesGop2024 unitR + votesDem2024 unitR \<le> totalVotes2024 unitR \<and>
   newShares (projectedSwingD roundingState (Some unitR) (Some ''17019''))
     = Some \<lparr>shG = 3916173589017823 / 18014398509481984, shD = 3524556230116041 / 4503599627370496\<rparr> \<and>
   (1::real) < 3916173589017823 / 18014398509481984 + 3524556230116041 / 4503599627370496 \<and>
   fl (3916173589017823 / 18014398509481984 + 3524556230116041 / 4503599627370496) = 1 + 1 / 2 ^ 52"
proof -
  have a: "1 < gShare (computeSharesAfterSwingD (49 / 64) (56 / 64) 0 0)
                 + dShare (computeSharesAfterSwingD (49 / 64) (56 / 64) 0 0)"
    unfolding cssD_sample by simp
  have b: "fl (gShare (computeSharesAfterSwingD (49 / 64) (56 / 64) 0 0)
                 + dShare (computeSharesAfterSwingD (49 / 64) (56 / 64) 0 0)) = 1 + 1 / 2 ^ 52"
    unfolding cssD_sample using fl_sum_sample by simp
  have c: "votesGop2024 unitR + votesDem2024 unitR \<le> totalVotes2024 unitR"
    by (simp add: unitR_def)
  have d: "(1::real) < 3916173589017823 / 18014398509481984 + 3524556230116041 / 4503599627370496"
    by simp
  have e: "fl (3916173589017823 / 18014398509481984 + 3524556230116041 / 4503599627370496) = 1 + 1 / 2 ^ 52"
    using fl_sum_sample by simp
  from cssD_sample a b c psD_sample d e show ?thesis by (intro conjI)
qed

text \<open>
  Claim C2, amended. For every baseline and every combination of global deltas and
  local overrides, each share is clamped to \<open>[0, 1]\<close> after the additive delta, and
  if the clamped shares sum to more than 1 both are rescaled by the inverse of their
  sum. The returned shares lie in \<open>[0, 1]\<close> and sum to at most \<open>1 + \<epsilon>\<close>: with
  \<open>\<epsilon> = 0\<close> in exact arithmetic and \<open>\<epsilon> = 1 / 2 ^ 51\<close> in the double arithmetic
  of the code, for \<^verbatim>\<open>computeSharesAfterSwing\<close> on all arguments and for the new
  shares of \<^verbatim>\<open>projectedSwing\<close> whenever it returns them.
\<close>

theorem share_bound:
  "computeSharesAfterSwing d0 g0 dpp gpp =
     (let dC = clamp (d0 + dpp / 100) 0 1;
          gC = clamp (g0 + gpp / 100) 0 1
      in if dC + gC > 1
         then \<lparr>dShare = dC * (1 / (dC + gC)), gShare = gC * (1 / (dC + gC))\<rparr>
         else \<lparr>dShare = dC, gShare = gC\<rparr>) \<and>
   (0 < totalVotes2024 b \<longrightarrow>
      newShares (projectedSwing st (Some b) f) =
        Some (let (dC, gC) = clampedShares st b f
              in if dC + gC > 1
                 then \<lparr>shG = gC * (1 / (dC + gC)), shD = dC * (1 / (dC + gC))\<rparr>
                 else \<lparr>shG = gC, shD = dC\<rparr>)) \<and>
   (0 \<le> gShare (computeSharesAfterSwing d0 g0 dpp gpp) \<and>
    gShare (computeSharesAfterSwing d0 g0 dpp gpp) \<le> 1 \<and>
    0 \<le> dShare (computeSharesAfterSwing d0 g0 dpp gpp) \<and>
    dShare (computeSharesAfterSwing d0 g0 dpp gpp) \<le> 1 \<and>
    gShare (computeSharesAfterSwing d0 g0 dpp gpp) + dShare (computeSharesAfterSwing d0 g0 dpp gpp) \<le> 1) \<and>
   (\<forall>s. newShares (projectedSwing st base f) = Some s \<longrightarrow>
      0 \<le> shG s \<and> shG s \<le> 1 \<and> 0 \<le> shD s \<and> shD s \<le> 1 \<and> shG s + shD s \<le> 1) \<and>
   (0 \<le> gShare (computeSharesAfterSwingD d0 g0 dpp gpp) \<and>
    gShare (computeSharesAfterSwingD d0 g0 dpp gpp) \<le> 1 \<and>
    0 \<le> dShare (computeSharesAfterSwingD d0 g0 dpp gpp) \<and>
    dShare (computeSharesAfterSwingD d0 g0 dpp gpp) \<le> 1 \<and>
    gShare (computeSharesAfterSwingD d0 g0 dpp gpp) + dShare (computeSharesAfterSwingD d0 g0 dpp gpp)
      \<le> 1 + 1 / 2 ^ 51) \<and>
   (\<forall>s. newShares (projectedSwingD st base f) = Some s \<longrightarrow>
      0 \<le> shG s \<and> shG s \<le> 1 \<and> 0 \<le> shD s \<and> shD s \<le> 1 \<and>
      shG s + shD s \<le> 1 + 1 / 2 ^ 51)"
proof -
  have exact: "\<forall>s. newShares (projectedSwing st base f) = Some s \<longrightarrow>
      0 \<le> shG s \<and> shG s \<le> 1 \<and> 0 \<le> shD s \<and> shD s \<le> 1 \<and> shG s + shD s \<le> 1"
  proof (intro allI impI)
    fix s assume s: "newShares (projectedSwing st base f) = Some s"
    then obtain c where c: "base = Some c" "0 < totalVotes2024 c"
      by (cases base) (auto simp: projectedSwing_def split: if_splits)
    from ps_shares[OF c(2), of st f] s c(1)
    show "0 \<le> shG s \<and> shG s \<le> 1 \<and> 0 \<le> shD s \<and> shD s \<le> 1 \<and> shG s + shD s \<le> 1"
      by auto
  qed
  have double: "\<forall>s. newShares (projectedSwingD st base f) = Some s \<longrightarrow>
      0 \<le> shG s \<and> shG s \<le> 1 \<and> 0 \<le> shD s \<and> shD s \<le> 1 \<and>
      shG s + shD s \<le> 1 + 1 / 2 ^ 51"
    using psD_shares by blast
  have pin: "0 < totalVotes2024 b \<longrightarrow>
      newShares (projectedSwing st (Some b) f) =
        Some (let (dC, gC) = clampedShares st b f
              in if dC + gC > 1
                 then \<lparr>shG = gC * (1 / (dC + gC)), shD = dC * (1 / (dC + gC))\<rparr>
                 else \<lparr>shG = gC, shD = dC\<rparr>)"
    using ps_explicit by blast
  show ?thesis
    by (rule conjI[OF css_explicit conjI[OF pin conjI[OF css_bounds conjI[OF exact
          conjI[OF cssD_bounds double]]]]])
qed

theorem share_bound_witness:
  "0 < totalVotes2024 unitB \<and>
   clampedShares sliderState unitB (Some ''17043'') = (17 / 20, 11 / 20) \<and>
   newShares (projectedSwing sliderState (Some unitB) (Some ''17043''))
     = Some \<lparr>shG = 11 / 20 * (1 / (17 / 20 + 11 / 20)), shD = 17 / 20 * (1 / (17 / 20 + 11 / 20))\<rparr> \<and>
   shG \<lparr>shG = 11 / 28, shD = 17 / 28\<rparr> + shD \<lparr>shG = 11 / 28, shD = 17 / 28\<rparr> \<le> (1::real) \<and>
   newShares (projectedSwing sliderState (Some unitA) (Some ''17031'')) = Some \<lparr>shG = 1 / 2, shD = 1 / 2\<rparr> \<and>
   computeSharesAfterSwingD (9 / 20) (11 / 20) (- 5) 5
     = \<lparr>dShare = 3602879701896397 / 9007199254740992, gShare = 5404319552844595 / 9007199254740992\<rparr> \<and>
   newShares (projectedSwingD sliderState (Some unitA) (Some ''17031'')) = Some \<lparr>shG = 1 / 2, shD = 1 / 2\<rparr> \<and>
   newShares (projectedSwingD roundingState (Some unitR) (Some ''17019''))
     = Some \<lparr>shG = 3916173589017823 / 18014398509481984, shD = 3524556230116041 / 4503599627370496\<rparr> \<and>
   3916173589017823 / 18014398509481984 + 3524556230116041 / 4503599627370496 \<le> (1 + 1 / 2 ^ 51 :: real)"
proof -
  have tv: "0 < totalVotes2024 unitB" by (simp add: unitB_def)
  have cs: "clampedShares sliderState unitB (Some ''17043'') = (17 / 20, 11 / 20)"
    by (simp add: clampedShares_def localFor_def sliderState_def unitB_def clamp_def Let_def)
  note t = share_bound[of "9 / 20" "11 / 20" "- 5" 5 unitB sliderState "Some ''17043''" "Some unitB"]
  note tR = share_bound[of 0 0 0 0 unitR roundingState "Some ''17019''" "Some unitR"]
  have n: "newShares (projectedSwing sliderState (Some unitB) (Some ''17043''))
     = Some \<lparr>shG = 11 / 20 * (1 / (17 / 20 + 11 / 20)), shD = 17 / 20 * (1 / (17 / 20 + 11 / 20))\<rparr>"
    using t tv by (simp add: cs)
  then have n': "newShares (projectedSwing sliderState (Some unitB) (Some ''17043''))
     = Some \<lparr>shG = 11 / 28, shD = 17 / 28\<rparr>" by simp
  have b: "shG \<lparr>shG = 11 / 28, shD = 17 / 28\<rparr> + shD \<lparr>shG = 11 / 28, shD = 17 / 28\<rparr> \<le> (1::real)"
    using t n' by blast
  have a: "newShares (projectedSwing sliderState (Some unitA) (Some ''17031'')) = Some \<lparr>shG = 1 / 2, shD = 1 / 2\<rparr>"
    by (simp add: projectedSwing_def localFor_def sliderState_def unitA_def clamp_def Let_def)
  have r: "3916173589017823 / 18014398509481984 + 3524556230116041 / 4503599627370496 \<le> (1 + 1 / 2 ^ 51 :: real)"
    using tR psD_sample by fastforce
  from tv cs n b a cssD_sample_plain psD_sample_plain psD_sample r show ?thesis by (intro conjI)
qed

subsection \<open>Renormalization keeps the ratio of the two shares\<close>

lemma rescale_ratio:
  fixes a b :: real
  assumes "0 \<le> a" "a \<le> 1" "0 \<le> b" "b \<le> 1" "1 < a + b"
  shows "0 < a" "0 < a * (1 / (a + b))"
        "(b * (1 / (a + b))) / (a * (1 / (a + b))) = b / a"
proof -
  show a: "0 < a" using assms by linarith
  have pos: "0 < a + b" using assms by linarith
  then show "0 < a * (1 / (a + b))" using a by simp
  show "(b * (1 / (a + b))) / (a * (1 / (a + b))) = b / a"
    using pos a by simp
qed

text \<open>
  Claim C8. Whenever the clamped shares sum to more than 1, both are rescaled by
  \<open>1 / (gShare + dShare)\<close>, and the ratio \<open>gShare / dShare\<close> after the rescale
  equals the ratio of the clamped shares; the clamped Democratic share is then positive,
  so the ratio is defined. This holds for \<^verbatim>\<open>computeSharesAfterSwing\<close> and for
  \<^verbatim>\<open>projectedSwing\<close> on every baseline with positive turnout and every scenario.
\<close>

theorem renormalization_ratio:
  "(let dC = clamp (d0 + dpp / 100) 0 1;
        gC = clamp (g0 + gpp / 100) 0 1;
        r = computeSharesAfterSwing d0 g0 dpp gpp
    in dC + gC > 1 \<longrightarrow>
         gShare r = gC * (1 / (dC + gC)) \<and> dShare r = dC * (1 / (dC + gC)) \<and>
         0 < dC \<and> 0 < dShare r \<and> gShare r / dShare r = gC / dC) \<and>
   (let (dC, gC) = clampedShares st b f
    in 0 < totalVotes2024 b \<and> dC + gC > 1 \<longrightarrow>
         newShares (projectedSwing st (Some b) f)
           = Some \<lparr>shG = gC * (1 / (dC + gC)), shD = dC * (1 / (dC + gC))\<rparr> \<and>
         0 < dC \<and> (gC * (1 / (dC + gC))) / (dC * (1 / (dC + gC))) = gC / dC)"
proof (intro conjI)
  define a where "a = clamp (d0 + dpp / 100) 0 1"
  define c where "c = clamp (g0 + gpp / 100) 0 1"
  have ab: "0 \<le> a" "a \<le> 1" "0 \<le> c" "c \<le> 1"
    using clamp01 by (simp_all add: a_def c_def)
  show "let dC = clamp (d0 + dpp / 100) 0 1;
        gC = clamp (g0 + gpp / 100) 0 1;
        r = computeSharesAfterSwing d0 g0 dpp gpp
    in dC + gC > 1 \<longrightarrow>
         gShare r = gC * (1 / (dC + gC)) \<and> dShare r = dC * (1 / (dC + gC)) \<and>
         0 < dC \<and> 0 < dShare r \<and> gShare r / dShare r = gC / dC"
    unfolding Let_def a_def[symmetric] c_def[symmetric]
  proof
    assume gt: "1 < a + c"
    have r: "computeSharesAfterSwing d0 g0 dpp gpp
               = \<lparr>dShare = a * (1 / (a + c)), gShare = c * (1 / (a + c))\<rparr>"
      using gt by (simp add: computeSharesAfterSwing_def Let_def a_def[symmetric] c_def[symmetric])
    from rescale_ratio[OF ab gt] show "gShare (computeSharesAfterSwing d0 g0 dpp gpp) = c * (1 / (a + c)) \<and>
       dShare (computeSharesAfterSwing d0 g0 dpp gpp) = a * (1 / (a + c)) \<and>
       0 < a \<and> 0 < dShare (computeSharesAfterSwing d0 g0 dpp gpp) \<and>
       gShare (computeSharesAfterSwing d0 g0 dpp gpp) / dShare (computeSharesAfterSwing d0 g0 dpp gpp) = c / a"
      unfolding r by simp
  qed
next
  obtain a c where ac: "clampedShares st b f = (a, c)" by (cases "clampedShares st b f")
  have a: "a = clamp (votesDem2024 b / max 1 (totalVotes2024 b) + (demSwing st / 100) + (dem (localFor st f) / 100)) 0 1"
   and c: "c = clamp (votesGop2024 b / max 1 (totalVotes2024 b) + (gopSwing st / 100) + (gop (localFor st f) / 100)) 0 1"
    using ac by (simp_all add: clampedShares_def Let_def)
  have ab: "0 \<le> a" "a \<le> 1" "0 \<le> c" "c \<le> 1"
    using clamp01 by (simp_all add: a c)
  show "let (dC, gC) = clampedShares st b f
    in 0 < totalVotes2024 b \<and> dC + gC > 1 \<longrightarrow>
         newShares (projectedSwing st (Some b) f)
           = Some \<lparr>shG = gC * (1 / (dC + gC)), shD = dC * (1 / (dC + gC))\<rparr> \<and>
         0 < dC \<and> (gC * (1 / (dC + gC))) / (dC * (1 / (dC + gC))) = gC / dC"
    unfolding ac Let_def prod.case
  proof
    assume h: "0 < totalVotes2024 b \<and> 1 < a + c"
    then have gt: "1 < a + c" by simp
    have "newShares (projectedSwing st (Some b) f)
           = Some \<lparr>shG = c * (1 / (a + c)), shD = a * (1 / (a + c))\<rparr>"
      using h by (simp add: projectedSwing_def Let_def a[symmetric] c[symmetric])
    with rescale_ratio[OF ab gt]
    show "newShares (projectedSwing st (Some b) f)
           = Some \<lparr>shG = c * (1 / (a + c)), shD = a * (1 / (a + c))\<rparr> \<and>
         0 < a \<and> (c * (1 / (a + c))) / (a * (1 / (a + c))) = c / a"
      by simp
  qed
qed

theorem renormalization_ratio_witness:
  "clampedShares sliderState unitB (Some ''17043'') = (17/20, 11/20) \<and>
   newShares (projectedSwing sliderState (Some unitB) (Some ''17043''))
     = Some \<lparr>shG = 11/28, shD = 17/28\<rparr> \<and>
   dShare (computeSharesAfterSwing (8/10) (6/10) 5 (-5)) = 17/28 \<and>
   gShare (computeSharesAfterSwing (8/10) (6/10) 5 (-5)) / dShare (computeSharesAfterSwing (8/10) (6/10) 5 (-5)) = 11/17"
proof -
  have cs: "clampedShares sliderState unitB (Some ''17043'') = (17/20, 11/20)"
    by (simp add: clampedShares_def localFor_def sliderState_def unitB_def clamp_def Let_def)
  have tv: "0 < totalVotes2024 unitB" by (simp add: unitB_def)
  from renormalization_ratio[of "8/10" 5 "6/10" "-5" sliderState unitB "Some ''17043''"] cs tv
  show ?thesis by (simp add: Let_def clamp_def)
qed

subsection \<open>Visual encoding\<close>

text \<open>
  Claim C9. The bucket index of a margin \<open>m\<close> is 0 below 1, 1 below 5, 2 below 10,
  3 below 20, 4 below 30 (all on \<open>\<bar>m\<bar>\<close>) and 5 otherwise, so it is at most 5; the
  extrusion height is \<open>1000 + (min 40 \<bar>m\<bar> / 40) * 18000\<close>, between 1000 and 19000.
\<close>

theorem visual_encoding:
  "iowaMarginBinIndex m =
     (if \<bar>m\<bar> < 1 then 0 else if \<bar>m\<bar> < 5 then 1 else if \<bar>m\<bar> < 10 then 2
      else if \<bar>m\<bar> < 20 then 3 else if \<bar>m\<bar> < 30 then 4 else 5) \<and>
   iowaMarginBinIndex m \<le> 5 \<and>
   extrusionFromMarginIOWA m = 1000 + (min 40 \<bar>m\<bar> / 40) * 18000 \<and>
   1000 \<le> extrusionFromMarginIOWA m \<and> extrusionFromMarginIOWA m \<le> 19000"
  by (simp add: iowaMarginBinIndex_def extrusionFromMarginIOWA_def Let_def min_def)

subsection \<open>Zero swing leaves the margin unchanged\<close>

lemma js_or_zero: "js_or x 0 = x"
  by (simp add: js_or_def)

lemma zero_swing_shares:
  fixes d g tv :: real
  assumes "1 \<le> tv" "0 \<le> g" "0 \<le> d" "g + d \<le> tv"
  shows "computeSharesAfterSwing (d / tv) (g / tv) (0 + 0) (0 + 0) = \<lparr>dShare = d / tv, gShare = g / tv\<rparr>"
proof -
  have tv: "0 < tv" using assms by linarith
  have "d \<le> tv" "g \<le> tv" using assms by linarith+
  then have d: "clamp (d / tv) 0 1 = d / tv" and g: "clamp (g / tv) 0 1 = g / tv"
    using assms tv by (simp_all add: clamp_def min_def max_def)
  have "d / tv + g / tv = (d + g) / tv" by (simp add: add_divide_distrib)
  also have "\<dots> \<le> 1" using assms tv by simp
  finally have "\<not> 1 < d / tv + g / tv" by simp
  then show ?thesis
    by (simp add: computeSharesAfterSwing_def Let_def d g)
qed

text \<open>
  Claim C10. For a baseline with \<open>totalVotes \<ge> 1\<close>, non-negative party votes and
  \<open>gopVotes + demVotes \<le> totalVotes\<close>, \<^verbatim>\<open>computeProjectedMargin\<close> with all deltas
  zero returns a new margin equal to the base margin. Without the last precondition the
  renormalization can change the margin: it does for 80 Democratic and 60 Republican
  votes out of a total of 100.
\<close>

theorem zero_swing_identity:
  "(1 \<le> tv \<and> 0 \<le> g \<and> 0 \<le> d \<and> g + d \<le> tv \<longrightarrow>
      pmNewMargin (computeProjectedMargin d g tv 0 0 0 0)
        = pmBaseMargin (computeProjectedMargin d g tv 0 0 0 0)) \<and>
   pmNewMargin (computeProjectedMargin 80 60 100 0 0 0 0)
     \<noteq> pmBaseMargin (computeProjectedMargin 80 60 100 0 0 0 0)"
proof (intro conjI impI)
  assume h: "1 \<le> tv \<and> 0 \<le> g \<and> 0 \<le> d \<and> g + d \<le> tv"
  then have m: "max 1 tv = tv" by simp
  from h zero_swing_shares[of tv g d]
  show "pmNewMargin (computeProjectedMargin d g tv 0 0 0 0)
        = pmBaseMargin (computeProjectedMargin d g tv 0 0 0 0)"
    by (simp add: computeProjectedMargin_def Let_def js_or_zero m)
next
  show "pmNewMargin (computeProjectedMargin 80 60 100 0 0 0 0)
     \<noteq> pmBaseMargin (computeProjectedMargin 80 60 100 0 0 0 0)"
    by (simp add: computeProjectedMargin_def computeSharesAfterSwing_def clamp_def js_or_def Let_def)
qed

theorem zero_swing_identity_witness:
  "pmNewMargin (computeProjectedMargin 450 550 1000 0 0 0 0) = 10 \<and>
   pmBaseMargin (computeProjectedMargin 450 550 1000 0 0 0 0) = 10"
proof -
  have b: "pmBaseMargin (computeProjectedMargin 450 550 1000 0 0 0 0) = 10"
    by (simp add: computeProjectedMargin_def js_or_def Let_def)
  from zero_swing_identity[of 1000 550 450] b show ?thesis by simp
qed

subsection \<open>Turnout-weighted aggregation\<close>

lemma fold_pair_sums:
  "fold (\<lambda>b (T, s). (T + t b, s + h b)) bs (T0, s0)
     = (T0 + (\<Sum>b\<leftarrow>bs. t b), s0 + (\<Sum>b\<leftarrow>bs. h b))"
  for t h :: "'a \<Rightarrow> real"
  by (induction bs arbitrary: T0 s0) (simp_all add: algebra_simps)

lemma accumulate_sums:
  "accumulate mOf bs = ((\<Sum>b\<leftarrow>bs. turnout b), (\<Sum>b\<leftarrow>bs. (mOf b / 100) * turnout b))"
  using fold_pair_sums[of turnout "\<lambda>b. (mOf b / 100) * turnout b" bs 0 0]
  by (simp add: accumulate_def)

lemma turnout_nonneg: "0 \<le> turnout b"
  by (simp add: turnout_def)

lemma sum_turnout_nonneg: "0 \<le> (\<Sum>b\<leftarrow>bs. turnout b)"
  by (rule sum_list_nonneg) (auto simp: turnout_nonneg)

lemma computeState_formula:
  "computeStateProjectedMargin st sf =
     (let us = filter (\<lambda>b. stateFips b = sf) (entries st);
          T = (\<Sum>b\<leftarrow>us. turnout b)
      in if T > 0 then (\<Sum>b\<leftarrow>us. unitMargin st b * turnout b) / T else 0)"
proof -
  define us where "us = filter (\<lambda>b. stateFips b = sf) (entries st)"
  have s: "(\<Sum>b\<leftarrow>us. (unitMargin st b / 100) * turnout b) = (\<Sum>b\<leftarrow>us. unitMargin st b * turnout b) / 100"
    by (induction us) (simp_all add: add_divide_distrib)
  show ?thesis
    unfolding computeStateProjectedMargin_def Let_def us_def[symmetric] accumulate_sums prod.case s
    by (cases "us = []") simp_all
qed

lemma drop_zero_turnout:
  "(\<Sum>b\<leftarrow>filter (\<lambda>b. P b \<and> turnout b \<noteq> 0) bs. h b * turnout b)
     = (\<Sum>b\<leftarrow>filter P bs. h b * turnout b)"
  "(\<Sum>b\<leftarrow>filter (\<lambda>b. P b \<and> turnout b \<noteq> 0) bs. turnout b)
     = (\<Sum>b\<leftarrow>filter P bs. turnout b)"
  by (induction bs) simp_all

lemma turnout_of_nonneg: "0 \<le> totalVotes2024 b \<Longrightarrow> turnout b = totalVotes2024 b"
  by (simp add: turnout_def js_or_def)

lemma unitMargin_explicit:
  "unitMargin st b =
     (if demSwing st \<noteq> 0 \<or> gopSwing st \<noteq> 0 \<or> solverActive st
      then newMargin (projectedSwing st (Some b) (Some (fips b)))
      else baseMargin (projectedSwing st (Some b) (Some (fips b))))"
  by (simp add: unitMargin_def anySwing_def Let_def)

lemma turnout_explicit: "turnout b = max 0 (totalVotes2024 b)"
  by (simp add: turnout_def js_or_def)

lemma aggregate_formulas:
  "(let us = filter (\<lambda>b. stateFips b = sf) (entries st);
        T = (\<Sum>b\<leftarrow>us. turnout b)
    in computeStateProjectedMargin st sf
         = (if T > 0 then (\<Sum>b\<leftarrow>us. unitMargin st b * turnout b) / T else 0)) \<and>
   (let us = filter (\<lambda>b. turnout b \<noteq> 0) (filter (\<lambda>b. stateFips b = sf) (entries st));
        T = (\<Sum>b\<leftarrow>us. turnout b)
    in computeStateProjectedMargin st sf
         = (if T > 0 then (\<Sum>b\<leftarrow>us. unitMargin st b * turnout b) / T else 0)) \<and>
   ((\<forall>b \<in> set (filter (\<lambda>b. stateFips b = sf) (entries st)). 0 \<le> totalVotes2024 b) \<longrightarrow>
      (let us = filter (\<lambda>b. stateFips b = sf) (entries st);
           T = (\<Sum>b\<leftarrow>us. totalVotes2024 b)
       in computeStateProjectedMargin st sf
            = (if T > 0 then (\<Sum>b\<leftarrow>us. unitMargin st b * totalVotes2024 b) / T else 0)))"
proof (intro conjI impI)
  show "let us = filter (\<lambda>b. stateFips b = sf) (entries st);
        T = (\<Sum>b\<leftarrow>us. turnout b)
    in computeStateProjectedMargin st sf
         = (if T > 0 then (\<Sum>b\<leftarrow>us. unitMargin st b * turnout b) / T else 0)"
    using computeState_formula[of st sf] by (simp only: Let_def)
  have f: "filter (\<lambda>b. turnout b \<noteq> 0) (filter (\<lambda>b. stateFips b = sf) (entries st))
             = filter (\<lambda>b. stateFips b = sf \<and> turnout b \<noteq> 0) (entries st)"
    by (simp add: conj_commute)
  show "let us = filter (\<lambda>b. turnout b \<noteq> 0) (filter (\<lambda>b. stateFips b = sf) (entries st));
        T = (\<Sum>b\<leftarrow>us. turnout b)
    in computeStateProjectedMargin st sf
         = (if T > 0 then (\<Sum>b\<leftarrow>us. unitMargin st b * turnout b) / T else 0)"
    unfolding f Let_def drop_zero_turnout using computeState_formula[of st sf]
    by (simp only: Let_def)
next
  define us where "us = filter (\<lambda>b. stateFips b = sf) (entries st)"
  assume "\<forall>b \<in> set (filter (\<lambda>b. stateFips b = sf) (entries st)). 0 \<le> totalVotes2024 b"
  then have "\<forall>b \<in> set us. turnout b = totalVotes2024 b"
    by (auto simp: us_def turnout_of_nonneg)
  then have e: "(\<Sum>b\<leftarrow>us. turnout b) = (\<Sum>b\<leftarrow>us. totalVotes2024 b)"
    "(\<Sum>b\<leftarrow>us. unitMargin st b * turnout b) = (\<Sum>b\<leftarrow>us. unitMargin st b * totalVotes2024 b)"
    by (auto intro!: arg_cong[where f = sum_list] map_cong)
  show "let us = filter (\<lambda>b. stateFips b = sf) (entries st);
           T = (\<Sum>b\<leftarrow>us. totalVotes2024 b)
       in computeStateProjectedMargin st sf
            = (if T > 0 then (\<Sum>b\<leftarrow>us. unitMargin st b * totalVotes2024 b) / T else 0)"
    using computeState_formula[of st sf] unfolding Let_def us_def[symmetric] e .
qed

text \<open>
  Claim C3. The aggregate margin of a state is \<open>\<Sum> margin\<^sub>i * turnout\<^sub>i / \<Sum> turnout\<^sub>i\<close>
  over its units, where the margin of a unit is the new margin of the swing transform
  when a party swing is non-zero or the solver is active and its base margin otherwise,
  and the turnout is \<open>max 0 totalVotes\<close>, which is \<open>totalVotes\<close> on well-formed
  records. Leaving out the units of zero turnout changes nothing; the aggregate is 0
  when the state has no unit or no turnout; two units with turnouts 100 and 300 and
  margins \<open>+10\<close> and \<open>-10\<close> aggregate to \<open>-5\<close>; and under a swing, with a
  unit of zero turnout in the state, the projected margins are the ones averaged.
\<close>

theorem aggregate_margin:
  "(let m = (\<lambda>b. if demSwing st \<noteq> 0 \<or> gopSwing st \<noteq> 0 \<or> solverActive st
                  then newMargin (projectedSwing st (Some b) (Some (fips b)))
                  else baseMargin (projectedSwing st (Some b) (Some (fips b))));
        t = (\<lambda>b. max 0 (totalVotes2024 b));
        us = filter (\<lambda>b. stateFips b = sf) (entries st);
        pos = filter (\<lambda>b. t b \<noteq> 0) us
    in computeStateProjectedMargin st sf
         = (if (\<Sum>b\<leftarrow>us. t b) > 0 then (\<Sum>b\<leftarrow>us. m b * t b) / (\<Sum>b\<leftarrow>us. t b) else 0) \<and>
       computeStateProjectedMargin st sf
         = (if (\<Sum>b\<leftarrow>pos. t b) > 0 then (\<Sum>b\<leftarrow>pos. m b * t b) / (\<Sum>b\<leftarrow>pos. t b) else 0) \<and>
       ((\<forall>b \<in> set us. 0 \<le> totalVotes2024 b) \<longrightarrow>
          computeStateProjectedMargin st sf
            = (if (\<Sum>b\<leftarrow>us. totalVotes2024 b) > 0
               then (\<Sum>b\<leftarrow>us. m b * totalVotes2024 b) / (\<Sum>b\<leftarrow>us. totalVotes2024 b) else 0)) \<and>
       (us = [] \<longrightarrow> computeStateProjectedMargin st sf = 0) \<and>
       ((\<Sum>b\<leftarrow>us. t b) = 0 \<longrightarrow> computeStateProjectedMargin st sf = 0)) \<and>
   computeStateProjectedMargin twoUnitState ''17'' = - 5 \<and>
   computeStateProjectedMargin sliderState ''17'' = - 150 / 77"
proof -
  have ex: "unitMargin st = (\<lambda>b. if demSwing st \<noteq> 0 \<or> gopSwing st \<noteq> 0 \<or> solverActive st
                  then newMargin (projectedSwing st (Some b) (Some (fips b)))
                  else baseMargin (projectedSwing st (Some b) (Some (fips b))))"
    by (rule ext) (rule unitMargin_explicit)
  have tx: "turnout = (\<lambda>b. max 0 (totalVotes2024 b))"
    by (rule ext) (rule turnout_explicit)
  note g = aggregate_formulas[of sf st, unfolded Let_def ex tx]
  have two: "computeStateProjectedMargin twoUnitState ''17'' = - 5"
    by (simp add: computeState_formula entries_def twoUnitState_def unitC_def unitD_def
        unitMargin_def anySwing_def projectedSwing_def turnout_def js_or_def Let_def)
  have sl: "computeStateProjectedMargin sliderState ''17'' = - 150 / 77"
    by (simp add: computeState_formula entries_def sliderState_def unitA_def unitB_def unitZero_def
        unitMargin_def anySwing_def projectedSwing_def localFor_def clamp_def turnout_def js_or_def Let_def)
  have em: "computeStateProjectedMargin st sf = 0"
    if "filter (\<lambda>b. stateFips b = sf) (entries st) = []"
    using that by (simp add: computeStateProjectedMargin_def)
  have zt: "computeStateProjectedMargin st sf = 0"
    if "(\<Sum>b\<leftarrow>filter (\<lambda>b. stateFips b = sf) (entries st). max 0 (totalVotes2024 b)) = 0"
    using that conjunct1[OF g] by simp
  show ?thesis
    unfolding Let_def using g em zt two sl by blast
qed

theorem aggregate_margin_witness:
  "filter (\<lambda>b. stateFips b = ''17'') (entries sliderState) = [unitA, unitB, unitZero] \<and>
   0 \<le> totalVotes2024 unitA \<and> 0 \<le> totalVotes2024 unitB \<and> 0 \<le> totalVotes2024 unitZero \<and>
   demSwing sliderState \<noteq> 0 \<and>
   newMargin (projectedSwing sliderState (Some unitA) (Some (fips unitA))) = 0 \<and>
   newMargin (projectedSwing sliderState (Some unitB) (Some (fips unitB))) = - 150 / 7 \<and>
   newMargin (projectedSwing sliderState (Some unitZero) (Some (fips unitZero))) = 0 \<and>
   computeStateProjectedMargin sliderState ''17''
     = (0 * 1000 + (- 150 / 7) * 100 + 0 * 0) / (1000 + 100 + 0) \<and>
   filter (\<lambda>b. stateFips b = ''99'') (entries twoUnitState) = [] \<and>
   computeStateProjectedMargin twoUnitState ''99'' = 0"
proof -
  have en: "filter (\<lambda>b. stateFips b = ''17'') (entries sliderState) = [unitA, unitB, unitZero]"
    by (simp add: entries_def sliderState_def unitA_def unitB_def unitZero_def)
  have tv: "totalVotes2024 unitA = 1000" "totalVotes2024 unitB = 100" "totalVotes2024 unitZero = 0"
    by (simp_all add: unitA_def unitB_def unitZero_def)
  have sw: "demSwing sliderState \<noteq> 0" by (simp add: sliderState_def)
  have m: "newMargin (projectedSwing sliderState (Some unitA) (Some (fips unitA))) = 0"
    "newMargin (projectedSwing sliderState (Some unitB) (Some (fips unitB))) = - 150 / 7"
    "newMargin (projectedSwing sliderState (Some unitZero) (Some (fips unitZero))) = 0"
    by (simp_all add: projectedSwing_def localFor_def sliderState_def unitA_def unitB_def unitZero_def
        clamp_def Let_def)
  have em: "filter (\<lambda>b. stateFips b = ''99'') (entries twoUnitState) = []"
    by (simp add: entries_def twoUnitState_def unitC_def unitD_def)
  have a: "computeStateProjectedMargin sliderState ''17''
     = (0 * 1000 + (- 150 / 7) * 100 + 0 * 0) / (1000 + 100 + 0)"
    using aggregate_margin[of sliderState "''17''"] sw
    by (simp add: Let_def en tv m)
  have b: "computeStateProjectedMargin twoUnitState ''99'' = 0"
    using aggregate_margin[of twoUnitState "''99''"] em by (simp add: Let_def)
  from en tv sw m em a b show ?thesis by simp
qed

subsection \<open>Units without data\<close>

text \<open>
  With the failing reads written out, the swing transform and the aggregator return
  what the functions above return: no read meets an \<^verbatim>\<open>undefined\<close> value.
\<close>

lemma localForE_ok: "localForE st f = Inr (localFor st f)"
  by (cases f) (auto simp: localForE_def localFor_def readProp_def Let_def split: option.splits)

lemma projectedSwingE_ok: "projectedSwingE st base f = Inr (projectedSwing st base f)"
  by (cases base)
     (simp_all add: projectedSwingE_def projectedSwing_def zeroResult_def readProp_def localForE_ok Let_def)

lemma accumulateE_ok:
  "accumulateE (\<lambda>b. Inr (mOf b)) bs acc
     = Inr (fold (\<lambda>b (T, sum). (T + turnout b, sum + (mOf b / 100) * turnout b)) bs acc)"
  by (induction bs arbitrary: acc) (auto split: prod.splits)

lemma computeStateProjectedMarginE_ok:
  "computeStateProjectedMarginE st sf = Inr (computeStateProjectedMargin st sf)"
proof -
  have m: "(\<lambda>b. case projectedSwingE st (Some b) (Some (fips b)) of
                           Inl e \<Rightarrow> Inl e
                         | Inr r \<Rightarrow> Inr (if anySwing st then newMargin r else baseMargin r))
             = (\<lambda>b. Inr (unitMargin st b))"
    by (rule ext) (simp add: projectedSwingE_ok unitMargin_def Let_def)
  show ?thesis
    unfolding computeStateProjectedMarginE_def computeStateProjectedMargin_def m accumulateE_ok
    by (simp add: accumulate_def Let_def split: prod.splits)
qed

text \<open>
  Claim C7, as stated, asks for zero shares on a record with \<open>totalVotes \<le> 0\<close>.
  The early return of \<^verbatim>\<open>projectedSwing\<close> carries no shares at all: for the
  zero-turnout sample unit the share fields are absent, not zero.
\<close>

theorem not_reporting_shares_absent:
  "totalVotes2024 unitZero \<le> 0 \<and>
   newShares (projectedSwing sliderState (Some unitZero) (Some ''17097'')) = None \<and>
   newShares (projectedSwing sliderState (Some unitZero) (Some ''17097'')) \<noteq> Some \<lparr>shG = 0, shD = 0\<rparr> \<and>
   baseShares (projectedSwing sliderState (Some unitZero) (Some ''17097'')) \<noteq> Some \<lparr>shG = 0, shD = 0\<rparr>"
  by (simp add: projectedSwing_def unitZero_def)

text \<open>
  Claim C7, amended. For every baseline record with \<open>totalVotes \<le> 0\<close>, and for an
  absent record, under every scenario, \<^verbatim>\<open>projectedSwing\<close> returns zero swing, zero
  base margin and zero new margin, with the share fields and the local swing absent,
  and raises no error. More generally neither the swing transform nor the aggregator
  throws, for any input: with every read of a property that could fail written out,
  \<^verbatim>\<open>projectedSwing\<close> and \<^verbatim>\<open>computeStateProjectedMargin\<close> return their value.
\<close>

theorem not_reporting_unit:
  "(totalVotes2024 b \<le> 0 \<longrightarrow>
      projectedSwing st (Some b) f = zeroResult \<and> projectedSwingE st (Some b) f = Inr zeroResult) \<and>
   projectedSwing st None f = zeroResult \<and> projectedSwingE st None f = Inr zeroResult \<and>
   projectedSwingE st base f = Inr (projectedSwing st base f) \<and>
   projectedSwingE st base f \<noteq> Inl TypeError \<and>
   computeStateProjectedMarginE st sf = Inr (computeStateProjectedMargin st sf) \<and>
   computeStateProjectedMarginE st sf \<noteq> Inl TypeError"
  by (simp add: projectedSwingE_ok computeStateProjectedMarginE_ok)
     (simp add: projectedSwing_def zeroResult_def)

theorem not_reporting_unit_witness:
  "totalVotes2024 unitZero \<le> 0 \<and>
   projectedSwing sliderState (Some unitZero) (Some ''17097'') = zeroResult \<and>
   projectedSwingE sliderState (Some unitZero) (Some ''17097'') = Inr zeroResult \<and>
   computeStateProjectedMarginE sliderState ''17'' = Inr (- 150 / 77)"
proof -
  have h: "totalVotes2024 unitZero \<le> 0" by (simp add: unitZero_def)
  have a: "computeStateProjectedMargin sliderState ''17'' = - 150 / 77"
    by (simp add: computeState_formula entries_def sliderState_def unitA_def unitB_def unitZero_def
        unitMargin_def anySwing_def projectedSwing_def localFor_def clamp_def turnout_def js_or_def Let_def)
  from not_reporting_unit[of unitZero sliderState "Some ''17097''" "Some unitZero" "''17''"] h a
  show ?thesis by simp
qed

subsection \<open>Elasticity estimate\<close>

lemma absDeltas_zip:
  "absDeltas ms (s, c) = (s + (\<Sum>(a, b)\<leftarrow>zip ms (tl ms). \<bar>b - a\<bar>), c + (length ms - 1))"
  by (induction ms "(s, c)" arbitrary: s c rule: absDeltas.induct) simp_all

lemma unitMargins_cycles:
  "unitMargins ym ys f = map recordMargin (filter (\<lambda>c. totalVotes2024 c > 0) (unitCycles ym ys f))"
  by (induction ys) (auto simp: unitCycles_def recordMargin_def Let_def split: option.splits)

lemma elasticityOf_spec:
  "elasticityOf (unitMargins ym ys f) = estimateElasticity (unitCycles ym ys f)"
proof -
  define pos where "pos = filter (\<lambda>c. totalVotes2024 c > 0) (unitCycles ym ys f)"
  show ?thesis
  proof (cases "length pos < 2")
    case True
    then show ?thesis
      by (simp add: elasticityOf_def estimateElasticity_def unitMargins_cycles pos_def[symmetric] Let_def)
  next
    case False
    then have "length pos - 1 \<noteq> 0" by simp
    with False show ?thesis
      by (simp add: elasticityOf_def estimateElasticity_def unitMargins_cycles pos_def[symmetric]
          Let_def absDeltas_zip avgAbsDelta_def clamp_def)
  qed
qed

lemma clamp_range:
  fixes v lo hi :: real
  assumes "lo \<le> hi"
  shows "lo \<le> clamp v lo hi" "clamp v lo hi \<le> hi"
  using assms by (simp_all add: clamp_def)

lemma estimateElasticity_range: "0.5 \<le> estimateElasticity cs \<and> estimateElasticity cs \<le> 3"
proof -
  have "(0.5::real) \<le> 3" by simp
  from clamp_range[OF this] show ?thesis
    by (simp add: estimateElasticity_def Let_def del: divide_le_eq_numeral1 le_divide_eq_numeral1)
qed

lemma fold_upd:
  "fold (\<lambda>b m. m(k b \<mapsto> v (k b))) bs m0 = (\<lambda>x. if x \<in> k ` set bs then Some (v x) else m0 x)"
  by (induction bs arbitrary: m0) (auto simp: fun_eq_iff)

lemma elasticityMap_eq:
  "elasticityMap st es =
     (\<lambda>x. if x \<in> fips ` set es
          then Some (estimateElasticity
                       (unitCycles (map_of (baselineByYear st)) (js_sort (map fst (baselineByYear st))) x))
          else None)"
  unfolding elasticityMap_def Let_def elasticityOf_spec
  by (rule fold_upd[where k = fips])

lemma js_sort_years: "js_sort [2024, 2008, 2016, 2012, 2020] = [2008, 2012, 2016, 2020, 2024]"
  by (simp add: js_sort_def)

text \<open>
  Claim C4. For every unit and every list of cycles (so for every ascending one), the
  elasticity that the solver computes from the margins of the unit is the estimate of
  the specification on the records of the unit: 1 when fewer than two cycles have
  positive turnout, otherwise \<open>clamp (0.5 + avgAbsDelta / 5) 0.5 3\<close> for the mean
  absolute change between consecutive positive-turnout margins. The estimate lies in
  \<open>[0.5, 3]\<close>, and the map \<^verbatim>\<open>eMap\<close> of the solver holds it for each entry.
\<close>

theorem elasticity_estimate:
  "elasticityOf (unitMargins ym ys f) = estimateElasticity (unitCycles ym ys f) \<and>
   estimateElasticity cs =
     (if length (filter (\<lambda>c. totalVotes2024 c > 0) cs) < 2 then 1
      else clamp (0.5 + avgAbsDelta (map recordMargin (filter (\<lambda>c. totalVotes2024 c > 0) cs)) / 5) 0.5 3) \<and>
   0.5 \<le> estimateElasticity cs \<and> estimateElasticity cs \<le> 3 \<and>
   elasticityMap st es =
     (\<lambda>x. if x \<in> fips ` set es
          then Some (estimateElasticity
                       (unitCycles (map_of (baselineByYear st)) (js_sort (map fst (baselineByYear st))) x))
          else None)"
  using elasticityOf_spec[of ym ys f] estimateElasticity_range[of cs] elasticityMap_eq[of st es]
  by (simp add: estimateElasticity_def Let_def)

subsection \<open>The solver reproduces the requested shift\<close>

lemma fold_add_sum:
  "fold (\<lambda>b acc. acc + t b) bs a = a + (\<Sum>b\<leftarrow>bs. t b)"
  for t :: "'a \<Rightarrow> real"
  by (induction bs arbitrary: a) (simp_all add: algebra_simps)

lemma totalTurnout_sum: "totalTurnout es = (\<Sum>b\<leftarrow>es. turnout b)"
  by (simp add: totalTurnout_def fold_add_sum)

lemma fold_sum_map:
  "fold (\<lambda>b (d, w). (d + h b, w(k b \<mapsto> v b))) bs (d0, w0)
     = (d0 + (\<Sum>b\<leftarrow>bs. h b), fold (\<lambda>b w. w(k b \<mapsto> v b)) bs w0)"
  for h :: "'a \<Rightarrow> real"
  by (induction bs arbitrary: d0 w0) (simp_all add: algebra_simps)

lemma denomLoop_fst:
  "fst (denomLoop mode eMap T es) = (\<Sum>b\<leftarrow>es. (turnout b / T) * unitE mode eMap (fips b))"
  using fold_sum_map[of "\<lambda>b. (turnout b / T) * unitE mode eMap (fips b)" fips "\<lambda>b. turnout b / T" es 0 Map.empty]
  by (simp add: denomLoop_def Let_def)

lemma fold_map_max:
  "fold (\<lambda>b (l, mx). (l(k b \<mapsto> v b), max mx (a b))) bs (l0, m0)
     = (fold (\<lambda>b l. l(k b \<mapsto> v b)) bs l0, fold (\<lambda>b mx. max mx (a b)) bs m0)"
  for a :: "'a \<Rightarrow> real"
  by (induction bs arbitrary: l0 m0) simp_all

lemma localLoop_fst:
  "fst (localLoop mode eMap delta denom es) =
     (\<lambda>x. if x \<in> fips ` set es
          then Some \<lparr>dem = - ((delta * unitE mode eMap x) / denom) / 2,
                     gop = ((delta * unitE mode eMap x) / denom) / 2\<rparr>
          else None)"
  using fold_map_max[of fips
      "\<lambda>b. \<lparr>dem = - ((delta * unitE mode eMap (fips b)) / denom) / 2,
                     gop = ((delta * unitE mode eMap (fips b)) / denom) / 2\<rparr>"
      "\<lambda>b. \<bar>(delta * unitE mode eMap (fips b)) / denom\<bar>" es Map.empty 0]
    fold_upd[of fips "\<lambda>x. \<lparr>dem = - ((delta * unitE mode eMap x) / denom) / 2,
                     gop = ((delta * unitE mode eMap x) / denom) / 2\<rparr>" es Map.empty]
  by (simp add: localLoop_def Let_def)

lemma unitE_entry:
  assumes "b \<in> set (entries st)"
  shows "unitE (solverMode st) (elasticityMap st (entries st)) (fips b) = solverElasticity st b"
proof -
  have "estimateElasticity cs \<noteq> 0" for cs
    using estimateElasticity_range[of cs] by auto
  with assms show ?thesis
    by (simp add: unitE_def solverElasticity_def elasticityMap_eq js_or_def)
qed

lemma solverElasticity_lower: "1 / 2 \<le> solverElasticity st b"
  using estimateElasticity_range by (simp add: solverElasticity_def)

lemma sum_list_divide:
  "(\<Sum>b\<leftarrow>bs. t b / c) = (\<Sum>b\<leftarrow>bs. t b) / c" for t :: "'a \<Rightarrow> real"
  by (induction bs) (simp_all add: add_divide_distrib)

lemma weights_sum_one:
  assumes "0 < (\<Sum>u\<leftarrow>entries st. turnout u)"
  shows "(\<Sum>b\<leftarrow>entries st. solverWeight st b) = 1"
  using assms by (simp add: solverWeight_def sum_list_divide)

lemma solverWeight_nonneg:
  assumes "0 < (\<Sum>u\<leftarrow>entries st. turnout u)"
  shows "0 \<le> solverWeight st b"
  using assms by (simp add: solverWeight_def turnout_nonneg)

lemma solverDenom_pos:
  assumes "0 < (\<Sum>u\<leftarrow>entries st. turnout u)"
  shows "1 / 2 \<le> solverDenom st"
proof -
  have "(\<Sum>b\<leftarrow>entries st. solverWeight st b * (1 / 2))
          \<le> (\<Sum>b\<leftarrow>entries st. solverWeight st b * solverElasticity st b)"
  proof (rule sum_list_mono)
    fix b
    show "solverWeight st b * (1 / 2) \<le> solverWeight st b * solverElasticity st b"
      by (rule mult_left_mono[OF solverElasticity_lower solverWeight_nonneg[OF assms]])
  qed
  moreover have "(\<Sum>b\<leftarrow>entries st. solverWeight st b * (1 / 2))
                   = (\<Sum>b\<leftarrow>entries st. solverWeight st b) * (1 / 2)"
    by (rule sum_list_mult_const)
  ultimately show ?thesis
    using weights_sum_one[OF assms] by (simp add: solverDenom_def)
qed

lemma denomLoop_entries:
  "fst (denomLoop (solverMode st) (elasticityMap st (entries st)) (totalTurnout (entries st)) (entries st))
     = solverDenom st"
proof -
  have "map (\<lambda>b. (turnout b / totalTurnout (entries st))
                    * unitE (solverMode st) (elasticityMap st (entries st)) (fips b)) (entries st)
          = map (\<lambda>b. solverWeight st b * solverElasticity st b) (entries st)"
    by (rule map_cong) (simp_all add: unitE_entry solverWeight_def totalTurnout_sum)
  then show ?thesis
    unfolding denomLoop_fst solverDenom_def by (rule arg_cong[where f = sum_list])
qed

lemma weighted_dUnit:
  assumes "0 < (\<Sum>u\<leftarrow>entries st. turnout u)"
  shows "(\<Sum>b\<leftarrow>entries st. solverWeight st b * dUnit st delta b) = delta"
proof -
  have D: "solverDenom st \<noteq> 0" using solverDenom_pos[OF assms] by auto
  have "(\<Sum>b\<leftarrow>entries st. solverWeight st b * dUnit st delta b)
          = (\<Sum>b\<leftarrow>entries st. (delta / solverDenom st) * (solverWeight st b * solverElasticity st b))"
    by (simp add: dUnit_def algebra_simps)
  also have "\<dots> = (delta / solverDenom st) * solverDenom st"
    unfolding solverDenom_def by (rule sum_list_const_mult)
  also have "\<dots> = delta" using D by simp
  finally show ?thesis .
qed

lemma uniform_dUnit:
  assumes "0 < (\<Sum>u\<leftarrow>entries st. turnout u)" "solverMode st = Uniform"
  shows "dUnit st delta b = delta"
proof -
  have "solverDenom st = (\<Sum>b\<leftarrow>entries st. solverWeight st b)"
    using assms(2) by (simp add: solverDenom_def solverElasticity_def)
  then show ?thesis
    using weights_sum_one[OF assms(1)] assms(2) by (simp add: dUnit_def solverElasticity_def)
qed

lemma runSolver_applied:
  assumes "0 < (\<Sum>u\<leftarrow>entries st. turnout u)"
    and "0.05 \<le> \<bar>tgt - computeCurrentStatewideMarginNoLocal st\<bar>"
  shows "runSolver st (Fin tgt) =
           st\<lparr>solverLocalSwings :=
                 fst (localLoop (solverMode st) (elasticityMap st (entries st))
                        (tgt - computeCurrentStatewideMarginNoLocal st) (solverDenom st) (entries st)),
               solverActive := True,
               solverStatus := Applied (solverMode st) (tgt - computeCurrentStatewideMarginNoLocal st)
                 (snd (localLoop (solverMode st) (elasticityMap st (entries st))
                        (tgt - computeCurrentStatewideMarginNoLocal st) (solverDenom st) (entries st))),
               tickKey := tickKey st + 1\<rparr>"
proof -
  have ne: "entries st \<noteq> []" using assms(1) by auto
  have T: "\<not> totalTurnout (entries st) \<le> 0" using assms(1) by (simp add: totalTurnout_sum)
  have d: "\<not> \<bar>tgt - computeCurrentStatewideMarginNoLocal st\<bar> < 0.05" using assms(2) by simp
  have D: "\<not> solverDenom st \<le> 0" using solverDenom_pos[OF assms(1)] by auto
  show ?thesis
    unfolding runSolver_def
    by (simp only: js_number.case Let_def d ne T if_False case_prod_beta denomLoop_entries D)
qed

lemma current_elasticState: "computeCurrentStatewideMarginNoLocal elasticState = 2"
  by (simp add: computeCurrentStatewideMarginNoLocal_def accumulate_sums entries_def
      elasticState_def unitA_def unitF_def projectedSwing_def turnout_def js_or_def Let_def)

lemma current_uniformState: "computeCurrentStatewideMarginNoLocal uniformState = 2"
  by (simp add: computeCurrentStatewideMarginNoLocal_def accumulate_sums entries_def uniformState_def
      elasticState_def unitA_def unitF_def projectedSwing_def turnout_def js_or_def Let_def)

lemma entries_elasticState: "entries elasticState = [unitA, unitF]" "entries uniformState = [unitA, unitF]"
  by (simp_all add: entries_def uniformState_def elasticState_def)

lemma turnout_samples: "turnout unitA = 1000" "turnout unitF = 1000"
  by (simp_all add: turnout_def js_or_def unitA_def unitF_def)

lemma elasticity_samples:
  "solverElasticity elasticState unitA = 5 / 2" "solverElasticity elasticState unitF = 9 / 10"
  by (simp_all add: solverElasticity_def elasticState_def unitA_def unitF_def unitA2020_def unitF2020_def
      js_sort_def unitCycles_def estimateElasticity_def avgAbsDelta_def recordMargin_def clamp_def Let_def)

lemma dUnit_samples:
  "dUnit elasticState 3 unitA = 75 / 17" "dUnit elasticState 3 unitF = 27 / 17"
  by (simp_all add: dUnit_def solverDenom_def solverWeight_def entries_elasticState turnout_samples
      elasticity_samples)

lemma current_no_turnout:
  assumes "entries st = [] \<or> totalTurnout (entries st) \<le> 0"
  shows "computeCurrentStatewideMarginNoLocal st = 0"
  using assms
  by (auto simp: computeCurrentStatewideMarginNoLocal_def accumulate_sums totalTurnout_sum Let_def)

text \<open>
  Claim C1. For a non-empty scope with positive aggregate turnout and a finite target at
  least 0.05 away from the current weighted margin, in both modes, the solver stores for
  every unit the local swing \<open>\<mp> dUnit\<^sub>i / 2\<close> with \<open>dUnit\<^sub>i = delta * e\<^sub>i / denom\<close>,
  the turnout-weighted sum \<open>\<Sum> w\<^sub>i * dUnit\<^sub>i\<close> is \<open>delta\<close>, and in uniform mode every
  \<open>dUnit\<^sub>i\<close> is \<open>delta\<close>.
\<close>

theorem solver_exactness:
  assumes "entries st \<noteq> []"
    and "0 < (\<Sum>u\<leftarrow>entries st. turnout u)"
    and "0.05 \<le> \<bar>tgt - computeCurrentStatewideMarginNoLocal st\<bar>"
  shows "let delta = tgt - computeCurrentStatewideMarginNoLocal st;
             st' = runSolver st (Fin tgt)
         in solverActive st' \<and>
            (\<forall>b \<in> set (entries st).
               solverLocalSwings st' (fips b)
                 = Some \<lparr>dem = - dUnit st delta b / 2, gop = dUnit st delta b / 2\<rparr>) \<and>
            (\<Sum>b\<leftarrow>entries st. solverWeight st b * dUnit st delta b) = delta \<and>
            (solverMode st = Uniform \<longrightarrow> (\<forall>b \<in> set (entries st). dUnit st delta b = delta))"
proof -
  define delta where "delta = tgt - computeCurrentStatewideMarginNoLocal st"
  have loc: "solverLocalSwings (runSolver st (Fin tgt)) (fips b)
               = Some \<lparr>dem = - dUnit st delta b / 2, gop = dUnit st delta b / 2\<rparr>"
    if "b \<in> set (entries st)" for b
    using that unitE_entry[OF that]
    by (simp add: runSolver_applied[OF assms(2,3)] localLoop_fst dUnit_def delta_def)
  have act: "solverActive (runSolver st (Fin tgt))"
    by (simp add: runSolver_applied[OF assms(2,3)])
  show ?thesis
    unfolding Let_def delta_def[symmetric]
    using loc act weighted_dUnit[OF assms(2)] uniform_dUnit[OF assms(2)] by blast
qed

theorem solver_exactness_witness:
  "entries elasticState \<noteq> [] \<and> 0 < sum_list (map turnout (entries elasticState)) \<and>
   0.05 \<le> \<bar>5 - computeCurrentStatewideMarginNoLocal elasticState\<bar> \<and>
   solverLocalSwings (runSolver elasticState (Fin 5)) ''17031'' = Some \<lparr>dem = - 75 / 34, gop = 75 / 34\<rparr> \<and>
   solverLocalSwings (runSolver elasticState (Fin 5)) ''17111'' = Some \<lparr>dem = - 27 / 34, gop = 27 / 34\<rparr> \<and>
   (1 / 2) * (75 / 17) + (1 / 2) * (27 / 17) = (3::real) \<and>
   solverLocalSwings (runSolver uniformState (Fin 5)) ''17031'' = Some \<lparr>dem = - 3 / 2, gop = 3 / 2\<rparr> \<and>
   solverLocalSwings (runSolver uniformState (Fin 5)) ''17111'' = Some \<lparr>dem = - 3 / 2, gop = 3 / 2\<rparr>"
proof -
  have e1: "entries elasticState \<noteq> []" and u1: "entries uniformState \<noteq> []"
    by (simp_all add: entries_elasticState)
  have e2: "0 < sum_list (map turnout (entries elasticState))"
    and u2: "0 < sum_list (map turnout (entries uniformState))"
    by (simp_all add: entries_elasticState turnout_samples)
  have e3: "0.05 \<le> \<bar>5 - computeCurrentStatewideMarginNoLocal elasticState\<bar>"
    and u3: "0.05 \<le> \<bar>5 - computeCurrentStatewideMarginNoLocal uniformState\<bar>"
    by (simp_all add: current_elasticState current_uniformState)
  have f: "fips unitA = ''17031''" "fips unitF = ''17111''"
    by (simp_all add: unitA_def unitF_def)
  have um: "solverMode uniformState = Uniform"
    by (simp add: uniformState_def)
  from solver_exactness[OF e1 e2 e3] solver_exactness[OF u1 u2 u3] e1 e2 e3 um
  show ?thesis
    by (simp add: Let_def current_elasticState current_uniformState entries_elasticState f dUnit_samples)
qed

subsection \<open>The solver within tolerance\<close>

text \<open>
  Claim C5. For every scope and every finite target whose distance from the current
  weighted margin is below 0.05, the solver is a no-op: it clears the local swings and
  the active flag, so that the swing transform reads a zero local swing for every unit.
\<close>

theorem solver_noop:
  "\<bar>tgt - computeCurrentStatewideMarginNoLocal st\<bar> < 0.05 \<longrightarrow>
     runSolver st (Fin tgt)
       = st\<lparr>solverLocalSwings := Map.empty, solverActive := False,
             solverStatus := AlreadyWithin (tgt - computeCurrentStatewideMarginNoLocal st)\<rparr> \<and>
     (\<forall>f. localFor (runSolver st (Fin tgt)) f = \<lparr>dem = 0, gop = 0\<rparr>)"
  by (simp add: runSolver_def clearSolver_def localFor_def Let_def split: option.split)

theorem solver_noop_witness:
  "\<bar>203 / 100 - computeCurrentStatewideMarginNoLocal elasticState\<bar> < 0.05 \<and>
   solverLocalSwings (runSolver elasticState (Fin (203 / 100))) = Map.empty \<and>
   localFor (runSolver elasticState (Fin (203 / 100))) (Some ''17031'') = \<lparr>dem = 0, gop = 0\<rparr>"
proof -
  have h: "\<bar>203 / 100 - computeCurrentStatewideMarginNoLocal elasticState\<bar> < 0.05"
    by (simp add: current_elasticState)
  note n = solver_noop[of "203 / 100" elasticState, rule_format, OF h]
  have r: "solverLocalSwings (runSolver elasticState (Fin (203 / 100))) = Map.empty"
    by (simp add: conjunct1[OF n])
  have l: "localFor (runSolver elasticState (Fin (203 / 100))) (Some ''17031'') = \<lparr>dem = 0, gop = 0\<rparr>"
    by (rule conjunct2[OF n, rule_format])
  from h r l show ?thesis by (intro conjI)
qed

subsection \<open>The failures of the solver\<close>

text \<open>
  The guards of \<^verbatim>\<open>runSolver\<close>: a non-finite target is reported, and once the
  tolerance test is passed an empty scope and a scope without turnout are reported; in
  each case only the status line changes.
\<close>

lemma solver_reports_scope:
  "(\<not> isFinite target \<longrightarrow> runSolver st target = st\<lparr>solverStatus := EnterNumericTarget\<rparr>) \<and>
   (0.05 \<le> \<bar>tgt\<bar> \<and> entries st = [] \<longrightarrow>
      runSolver st (Fin tgt) = st\<lparr>solverStatus := NoBaselineData\<rparr>) \<and>
   (0.05 \<le> \<bar>tgt\<bar> \<and> entries st \<noteq> [] \<and> totalTurnout (entries st) \<le> 0 \<longrightarrow>
      runSolver st (Fin tgt) = st\<lparr>solverStatus := ZeroTotalVotes\<rparr>)"
proof (intro conjI impI)
  show "runSolver st target = st\<lparr>solverStatus := EnterNumericTarget\<rparr>" if "\<not> isFinite target"
    using that by (cases target) (simp_all add: runSolver_def)
  show "runSolver st (Fin tgt) = st\<lparr>solverStatus := NoBaselineData\<rparr>"
    if "0.05 \<le> \<bar>tgt\<bar> \<and> entries st = []"
    using that current_no_turnout[of st] by (simp add: runSolver_def Let_def)
  show "runSolver st (Fin tgt) = st\<lparr>solverStatus := ZeroTotalVotes\<rparr>"
    if "0.05 \<le> \<bar>tgt\<bar> \<and> entries st \<noteq> [] \<and> totalTurnout (entries st) \<le> 0"
    using that current_no_turnout[of st] by (simp add: runSolver_def Let_def)
qed

text \<open>
  Claim C6. The solver fails with the invalid-target status for every non-finite target
  and with an empty-scope status for every scope that is empty or has zero aggregate
  turnout, and in both cases leaves the scenario state unchanged. The code has the two
  scope guards, and they report the scope with the target 5; but the tolerance test
  comes before them, and the margin of such a scope is 0: with the target 0, on the
  empty page and on the page without votes, the guards are not reached, the solver
  reports that it is already within tolerance, and it clears the local swings that were
  active.
\<close>

theorem solver_tolerance_before_scope_check:
  "entries emptyState = [] \<and>
   solverStatus (runSolver emptyState (Fin 0)) = AlreadyWithin 0 \<and>
   solverStatus (runSolver emptyState (Fin 0)) \<noteq> NoBaselineData \<and>
   totalTurnout (entries staleState) = 0 \<and>
   solverStatus (runSolver staleState (Fin 0)) = AlreadyWithin 0 \<and>
   solverStatus (runSolver staleState (Fin 0)) \<noteq> ZeroTotalVotes \<and>
   solverActive staleState \<and> \<not> solverActive (runSolver staleState (Fin 0)) \<and>
   solverLocalSwings staleState ''17097'' = Some \<lparr>dem = - 1, gop = 1\<rparr> \<and>
   solverLocalSwings (runSolver staleState (Fin 0)) ''17097'' = None \<and>
   runSolver emptyState (Fin 5) = emptyState\<lparr>solverStatus := NoBaselineData\<rparr> \<and>
   runSolver staleState (Fin 5) = staleState\<lparr>solverStatus := ZeroTotalVotes\<rparr> \<and>
   runSolver staleState NaN = staleState\<lparr>solverStatus := EnterNumericTarget\<rparr>"
proof -
  have e: "entries emptyState = []" by (simp add: entries_def emptyState_def)
  have s: "totalTurnout (entries staleState) = 0"
    by (simp add: totalTurnout_def entries_def staleState_def turnout_def js_or_def unitZero_def)
  have n: "entries staleState \<noteq> []" by (simp add: entries_def staleState_def)
  have ce: "computeCurrentStatewideMarginNoLocal emptyState = 0"
    using e by (simp add: current_no_turnout)
  have cs: "computeCurrentStatewideMarginNoLocal staleState = 0"
    using s by (simp add: current_no_turnout)
  have zero: "entries emptyState = [] \<and>
     solverStatus (runSolver emptyState (Fin 0)) = AlreadyWithin 0 \<and>
     solverStatus (runSolver emptyState (Fin 0)) \<noteq> NoBaselineData \<and>
     totalTurnout (entries staleState) = 0 \<and>
     solverStatus (runSolver staleState (Fin 0)) = AlreadyWithin 0 \<and>
     solverStatus (runSolver staleState (Fin 0)) \<noteq> ZeroTotalVotes \<and>
     solverActive staleState \<and> \<not> solverActive (runSolver staleState (Fin 0)) \<and>
     solverLocalSwings staleState ''17097'' = Some \<lparr>dem = - 1, gop = 1\<rparr> \<and>
     solverLocalSwings (runSolver staleState (Fin 0)) ''17097'' = None"
    using e s by (simp add: runSolver_def ce cs clearSolver_def Let_def) (simp add: staleState_def)
  have five: "runSolver emptyState (Fin 5) = emptyState\<lparr>solverStatus := NoBaselineData\<rparr>"
    "runSolver staleState (Fin 5) = staleState\<lparr>solverStatus := ZeroTotalVotes\<rparr>"
    "runSolver staleState NaN = staleState\<lparr>solverStatus := EnterNumericTarget\<rparr>"
    using solver_reports_scope[of NaN emptyState 5] solver_reports_scope[of NaN staleState 5] e s n
    by simp_all
  from zero five show ?thesis by simp
qed

end
